theory Spec2Isabelle
  imports Complex_Main "HOL-Library.AList"
begin

section \<open>Name Normalizer (validators.py, normalize\_column\_name)\<close>

text \<open>
  A column label is a Python string or a missing value (\<open>pd.isna\<close>); it is modelled as
  \<open>string option\<close>, \<open>None\<close> being the missing label. A character is a code point
  below 256, compared through its code (\<open>of_char\<close>); strings with other code points are
  outside the model.
\<close>

definition code :: "char \<Rightarrow> nat" where
  "code c = of_char c"

text \<open>
  The characters \<open>str.strip()\<close> removes: TAB..CR, FS..US, the space, NEL (133) and the
  no-break space (160).
\<close>

definition is_whitespace :: "char \<Rightarrow> bool" where
  "is_whitespace c =
     ((9 \<le> code c \<and> code c \<le> 13) \<or> (28 \<le> code c \<and> code c \<le> 32)
      \<or> code c = 133 \<or> code c = 160)"

definition strip :: "string \<Rightarrow> string" where
  "strip s = rev (dropWhile is_whitespace (rev (dropWhile is_whitespace s)))"

text \<open>The characters the character class \<open>[a-zA-Z0-9 ]\<close> accepts; \<open>re.sub\<close> deletes all others.\<close>

definition is_upper :: "char \<Rightarrow> bool" where
  "is_upper c = (65 \<le> code c \<and> code c \<le> 90)"

definition is_lower :: "char \<Rightarrow> bool" where
  "is_lower c = (97 \<le> code c \<and> code c \<le> 122)"

definition is_digit :: "char \<Rightarrow> bool" where
  "is_digit c = (48 \<le> code c \<and> code c \<le> 57)"

definition keep_char :: "char \<Rightarrow> bool" where
  "keep_char c = (is_lower c \<or> is_upper c \<or> is_digit c \<or> c = CHR '' '')"

definition remove_symbols :: "string \<Rightarrow> string" where
  "remove_symbols s = filter keep_char s"

definition replace_spaces :: "string \<Rightarrow> string" where
  "replace_spaces s = map (\<lambda>c. if c = CHR '' '' then CHR ''_'' else c) s"

text \<open>
  \<open>str.lower()\<close> on a code point below 256: the letters A..Z and the accented capitals
  192..222 (but not the multiplication sign, 215) move up by 32.
\<close>

definition lower_char :: "char \<Rightarrow> char" where
  "lower_char c =
     (if is_upper c \<or> (192 \<le> code c \<and> code c \<le> 222 \<and> code c \<noteq> 215)
      then char_of (code c + 32) else c)"

definition lower :: "string \<Rightarrow> string" where
  "lower s = map lower_char s"

text \<open>\<open>re.sub(r'_+', '_', s)\<close>: every maximal run of underscores becomes one underscore.\<close>

fun collapse_underscores :: "string \<Rightarrow> string" where
  "collapse_underscores [] = []"
| "collapse_underscores [c] = [c]"
| "collapse_underscores (c # d # s) =
     (if c = CHR ''_'' \<and> d = CHR ''_'' then collapse_underscores (d # s)
      else c # collapse_underscores (d # s))"

definition strip_underscores :: "string \<Rightarrow> string" where
  "strip_underscores s =
     rev (dropWhile (\<lambda>c. c = CHR ''_'') (rev (dropWhile (\<lambda>c. c = CHR ''_'') s)))"

definition normalize_column_name :: "string option \<Rightarrow> string" where
  "normalize_column_name col_name =
     (case col_name of
        None \<Rightarrow> []
      | Some s \<Rightarrow>
          strip_underscores (collapse_underscores (lower (replace_spaces (remove_symbols (strip s))))))"

section \<open>Cells, columns and the library's coercions\<close>

text \<open>
  A pandas column (\<open>Series\<close>) is its storage type and its cells. A missing cell is
  \<open>None\<close>, \<open>NaN\<close> or \<open>NaT\<close>; a numeric cell is a finite value or an infinity
  (\<open>float('inf')\<close>); a temporal cell is a timestamp.
\<close>

datatype coltype = T_INT | T_FLOAT | T_DATETIME | T_STRING

datatype dtype = Datetime64 | Int64 | Float64 | BoolD | Object

datatype null = NoneV | NaN | NaT

datatype number = Fin rat | Infinite

datatype cell = Null null | Str string | Num number | Stamp int | Flag bool

datatype error = IntCastingNaNError | DatetimeError | KeyError | IndexError | SessionError

record series =
  dtype :: dtype
  cells :: "cell list"

text \<open>
  The coercions of the pandas library are not part of the repository; they are taken as
  parameters. \<open>to_numeric_cell\<close> is \<open>pd.to_numeric(..., errors='coerce')\<close> on one cell
  (\<open>None\<close>: coerced to NaN). \<open>to_datetime_col\<close> is \<open>pd.to_datetime(..., errors='coerce')\<close>
  on a column: it raises (\<open>None\<close>) or gives the parser of the column's cells (a cell it
  maps to \<open>None\<close> becomes NaT). \<open>str_number\<close> and \<open>str_stamp\<close> are \<open>str()\<close> of a numeric
  and of a temporal cell.
\<close>

record pandas =
  to_numeric_cell :: "cell \<Rightarrow> number option"
  to_datetime_col :: "cell list \<Rightarrow> (cell \<Rightarrow> int option) option"
  str_number :: "number \<Rightarrow> string"
  str_stamp :: "int \<Rightarrow> string"

definition isna :: "cell \<Rightarrow> bool" where
  "isna c = (case c of Null k \<Rightarrow> True | _ \<Rightarrow> False)"

definition dropna :: "cell list \<Rightarrow> cell list" where
  "dropna cs = filter (\<lambda>c. \<not> isna c) cs"

text \<open>
  \<open>k / n > 0.8\<close>, the success rate of a coercion. The source divides two counts in
  double precision and compares with the literal \<open>0.8\<close>; for columns of fewer than
  \<open>2^50\<close> cells that comparison agrees with the exact one written here.
\<close>

definition rate_above :: "nat \<Rightarrow> nat \<Rightarrow> bool" where
  "rate_above k n = ((of_nat k :: rat) / of_nat n > 8 / 10)"

text \<open>
  \<open>Series.astype(int)\<close> on the coerced values, a cast to the 64-bit integer: pandas
  refuses a non-finite value (\<open>IntCastingNaNError\<close>) and hands the rest to NumPy, which
  truncates a finite value towards zero when the result fits 64 bits. For a finite value
  outside that range the C cast is not defined; NumPy on x86-64 returns the least 64-bit
  integer, which is what \<open>cast_int64\<close> takes.
\<close>

definition trunc :: "rat \<Rightarrow> int" where
  "trunc r = (if 0 \<le> r then \<lfloor>r\<rfloor> else \<lceil>r\<rceil>)"

definition is_finite :: "number \<Rightarrow> bool" where
  "is_finite n = (case n of Fin r \<Rightarrow> True | Infinite \<Rightarrow> False)"

definition in_int64 :: "int \<Rightarrow> bool" where
  "in_int64 i = (- (2 ^ 63) \<le> i \<and> i < 2 ^ 63)"

definition cast_int64 :: "number \<Rightarrow> int" where
  "cast_int64 n =
     (case n of
        Fin r \<Rightarrow> (if in_int64 (trunc r) then trunc r else - (2 ^ 63))
      | Infinite \<Rightarrow> - (2 ^ 63))"

definition astype_int :: "number list \<Rightarrow> error + int list" where
  "astype_int ns =
     (if list_all is_finite ns then Inr (map cast_int64 ns) else Inl IntCastingNaNError)"

text \<open>The values the cast leaves as they are up to their fractional part.\<close>

definition castable :: "number \<Rightarrow> bool" where
  "castable n = (case n of Fin r \<Rightarrow> in_int64 (trunc r) | Infinite \<Rightarrow> False)"

definition successes :: "'a option list \<Rightarrow> 'a list" where
  "successes xs = concat (map (\<lambda>x. case x of None \<Rightarrow> [] | Some v \<Rightarrow> [v]) xs)"

section \<open>Type Inferrer (data\_processor.py, \_infer\_column\_type)\<close>

text \<open>The temporal attempt, inside \<open>try: ... except: pass\<close>, and the default.\<close>

definition try_datetime :: "pandas \<Rightarrow> cell list \<Rightarrow> coltype" where
  "try_datetime P non_null =
     (case to_datetime_col P non_null of
        None \<Rightarrow> T_STRING
      | Some parse \<Rightarrow>
          (let datetime_converted = map parse non_null in
           if rate_above (length (successes datetime_converted)) (length non_null)
           then T_DATETIME else T_STRING))"

definition infer_column_type :: "pandas \<Rightarrow> series \<Rightarrow> error + coltype" where
  "infer_column_type P s =
     (if dtype s = Datetime64 then Inr T_DATETIME
      else if dtype s = Int64 then Inr T_INT
      else if dtype s = Float64 then Inr T_FLOAT
      else if dtype s = BoolD then Inr T_INT
      else
        (let non_null = dropna (cells s) in
         if length non_null = 0 then Inr T_STRING
         else
           (let numeric_converted = map (to_numeric_cell P) non_null;
                successful_numeric = successes numeric_converted in
            if rate_above (length successful_numeric) (length non_null)
               \<and> length successful_numeric > 0
            then
              (case astype_int successful_numeric of
                 Inl e \<Rightarrow> Inl e
               | Inr as_int \<Rightarrow>
                   Inr (if list_all2 (\<lambda>n i. n = Fin (of_int i)) successful_numeric as_int
                        then T_INT else T_FLOAT))
            else Inr (try_datetime P non_null))))"

text \<open>
  The algorithm as the specification words it: drop the missing entries; \<open>STRING\<close> if none
  remain; if the numerically coercible fraction exceeds 0.8, \<open>INT\<close> exactly when every
  coerced value has zero fractional part and \<open>FLOAT\<close> otherwise; else \<open>DATETIME\<close> if the
  temporally coercible fraction exceeds 0.8; else \<open>STRING\<close>.
\<close>

definition zero_fraction :: "number \<Rightarrow> bool" where
  "zero_fraction n = (case n of Fin r \<Rightarrow> r = of_int \<lfloor>r\<rfloor> | Infinite \<Rightarrow> False)"

definition datetime_count :: "pandas \<Rightarrow> cell list \<Rightarrow> nat" where
  "datetime_count P cs =
     (case to_datetime_col P cs of
        None \<Rightarrow> 0
      | Some parse \<Rightarrow> length (filter (\<lambda>c. parse c \<noteq> None) cs))"

definition numeric_values :: "pandas \<Rightarrow> cell list \<Rightarrow> number list" where
  "numeric_values P cs = successes (map (to_numeric_cell P) cs)"

definition infer_spec :: "pandas \<Rightarrow> cell list \<Rightarrow> coltype" where
  "infer_spec P cs =
     (let present = filter (\<lambda>c. \<not> isna c) cs in
      if present = [] then T_STRING
      else if rate_above (length (numeric_values P present)) (length present)
      then (if list_all zero_fraction (numeric_values P present) then T_INT else T_FLOAT)
      else if rate_above (datetime_count P present) (length present) then T_DATETIME
      else T_STRING)"

section \<open>Tables\<close>

text \<open>
  A pandas \<open>DataFrame\<close>: its number of rows and its labelled columns, in order. The
  functions below are the source's on frames whose labels are distinct; what pandas does
  with duplicate labels (a selection \<open>df[col]\<close> is then a frame, not a column) is outside
  the model.
\<close>

record dataframe =
  nrows :: nat
  columns :: "(string \<times> series) list"

definition labels :: "dataframe \<Rightarrow> string list" where
  "labels df = map fst (columns df)"

definition has_column :: "dataframe \<Rightarrow> string \<Rightarrow> bool" where
  "has_column df c = (c \<in> set (labels df))"

definition get_column :: "dataframe \<Rightarrow> string \<Rightarrow> series option" where
  "get_column df c = map_of (columns df) c"

text \<open>\<open>df[c] = s\<close>: replaces the column in place, or appends it.\<close>

definition set_column :: "string \<Rightarrow> series \<Rightarrow> dataframe \<Rightarrow> dataframe" where
  "set_column c s df = df\<lparr>columns := AList.update c s (columns df)\<rparr>"

text \<open>\<open>df[c] = v\<close> for a scalar \<open>v\<close>: one copy per row.\<close>

definition scalar_column :: "dataframe \<Rightarrow> dtype \<Rightarrow> cell \<Rightarrow> series" where
  "scalar_column df d v = \<lparr>dtype = d, cells = replicate (nrows df) v\<rparr>"


text \<open>
  \<open>astype(str)\<close> on one cell (pandas before version 3, the versions the Snowflake connector
  admits): a missing cell becomes the text \<open>None\<close>, \<open>nan\<close> or \<open>NaT\<close>.
\<close>

definition to_str :: "pandas \<Rightarrow> cell \<Rightarrow> string" where
  "to_str P c =
     (case c of
        Null NoneV \<Rightarrow> ''None''
      | Null NaN \<Rightarrow> ''nan''
      | Null NaT \<Rightarrow> ''NaT''
      | Str s \<Rightarrow> s
      | Num n \<Rightarrow> str_number P n
      | Stamp t \<Rightarrow> str_stamp P t
      | Flag b \<Rightarrow> (if b then ''True'' else ''False''))"

definition astype_str :: "pandas \<Rightarrow> series \<Rightarrow> series" where
  "astype_str P s = \<lparr>dtype = Object, cells = map (\<lambda>c. Str (to_str P c)) (cells s)\<rparr>"

definition fillna :: "cell \<Rightarrow> series \<Rightarrow> series" where
  "fillna v s = s\<lparr>cells := map (\<lambda>c. if isna c then v else c) (cells s)\<rparr>"

definition is_numeric_dtype :: "dtype \<Rightarrow> bool" where
  "is_numeric_dtype d = (d = Int64 \<or> d = Float64 \<or> d = BoolD)"

text \<open>
  \<open>pd.to_numeric(s, errors='coerce')\<close>: a numeric column is returned as it is; otherwise
  every cell is coerced, a missing or uncoercible one to NaN, and the storage is integer
  when every cell became a finite integer, floating otherwise.
\<close>

definition coerce_numeric :: "pandas \<Rightarrow> cell \<Rightarrow> cell" where
  "coerce_numeric P c =
     (if isna c then Null NaN
      else case to_numeric_cell P c of None \<Rightarrow> Null NaN | Some n \<Rightarrow> Num n)"

definition is_integer_cell :: "cell \<Rightarrow> bool" where
  "is_integer_cell c = (case c of Num n \<Rightarrow> zero_fraction n | _ \<Rightarrow> False)"

definition to_numeric :: "pandas \<Rightarrow> series \<Rightarrow> series" where
  "to_numeric P s =
     (if is_numeric_dtype (dtype s) then s
      else
        (let cs = map (coerce_numeric P) (cells s) in
         \<lparr>dtype = (if list_all is_integer_cell cs then Int64 else Float64), cells = cs\<rparr>))"

text \<open>
  \<open>pd.to_datetime(s, errors='coerce')\<close>: raises, or parses each cell, a missing or
  unparseable one to NaT.
\<close>

definition coerce_datetime :: "(cell \<Rightarrow> int option) \<Rightarrow> cell \<Rightarrow> cell" where
  "coerce_datetime parse c =
     (if isna c then Null NaT
      else case parse c of None \<Rightarrow> Null NaT | Some t \<Rightarrow> Stamp t)"

definition to_datetime :: "pandas \<Rightarrow> series \<Rightarrow> error + series" where
  "to_datetime P s =
     (case to_datetime_col P (cells s) of
        None \<Rightarrow> Inl DatetimeError
      | Some parse \<Rightarrow>
          Inr \<lparr>dtype = Datetime64,
               cells = map (coerce_datetime parse) (cells s)\<rparr>)"

text \<open>An exception of the first computation ends the sequence.\<close>

definition and_then :: "error + 'a \<Rightarrow> ('a \<Rightarrow> error + 'b) \<Rightarrow> error + 'b" where
  "and_then r f = (case r of Inl e \<Rightarrow> Inl e | Inr v \<Rightarrow> f v)"

section \<open>Anomaly Scrubber (data\_processor.py, \_clean\_time\_formatted\_values)\<close>

text \<open>
  \<open>str.match\<close> with the pattern \<open>^\d{1,2}:\d{2}:\d{2}$\<close>: one or two digits, a colon, two
  digits, a colon, two digits; \<open>$\<close> also matches before a final newline.
\<close>

definition mmss :: "string \<Rightarrow> bool" where
  "mmss t =
     (length t = 6 \<and> t ! 0 = CHR '':'' \<and> is_digit (t ! 1) \<and> is_digit (t ! 2)
      \<and> t ! 3 = CHR '':'' \<and> is_digit (t ! 4) \<and> is_digit (t ! 5))"

definition clock_text :: "string \<Rightarrow> bool" where
  "clock_text s =
     (case s of
        [] \<Rightarrow> False
      | a # t \<Rightarrow>
          is_digit a \<and> (mmss t \<or> (case t of [] \<Rightarrow> False | b # u \<Rightarrow> is_digit b \<and> mmss u)))"

definition time_pattern :: "string \<Rightarrow> bool" where
  "time_pattern s =
     (clock_text s \<or> (s \<noteq> [] \<and> last s = CHR 0x0A \<and> clock_text (butlast s)))"

definition scrub_cell :: "pandas \<Rightarrow> cell \<Rightarrow> cell" where
  "scrub_cell P c = (if time_pattern (to_str P c) then Null NoneV else c)"

text \<open>The body of the loop, for one column.\<close>

definition clean_column :: "pandas \<Rightarrow> series \<Rightarrow> error + series" where
  "clean_column P s =
     (if is_numeric_dtype (dtype s) then Inr s
      else
        and_then (infer_column_type P s)
          (\<lambda>inferred_type.
             if inferred_type = T_INT \<or> inferred_type = T_FLOAT
             then Inr (s\<lparr>cells := map (scrub_cell P) (cells s)\<rparr>)
             else Inr s))"

fun clean_columns :: "pandas \<Rightarrow> (string \<times> series) list \<Rightarrow> error + (string \<times> series) list" where
  "clean_columns P [] = Inr []"
| "clean_columns P ((col, s) # rest) =
     and_then (clean_column P s)
       (\<lambda>s'. and_then (clean_columns P rest) (\<lambda>rest'. Inr ((col, s') # rest')))"

definition clean_time_formatted_values :: "pandas \<Rightarrow> dataframe \<Rightarrow> error + dataframe" where
  "clean_time_formatted_values P df =
     and_then (clean_columns P (columns df)) (\<lambda>cs. Inr (df\<lparr>columns := cs\<rparr>))"

text \<open>
  What the scrubber does to a column, in the words of the specification: a column that is
  not natively numeric and whose inferred type is \<open>INT\<close> or \<open>FLOAT\<close> has every cell whose
  text matches the clock pattern replaced by the missing marker.
\<close>

definition should_scrub :: "pandas \<Rightarrow> series \<Rightarrow> bool" where
  "should_scrub P s =
     (\<not> is_numeric_dtype (dtype s)
      \<and> (infer_column_type P s = Inr T_INT \<or> infer_column_type P s = Inr T_FLOAT))"

definition scrubbed :: "pandas \<Rightarrow> series \<Rightarrow> series" where
  "scrubbed P s =
     s\<lparr>cells := map (\<lambda>c. if time_pattern (to_str P c) then Null NoneV else c) (cells s)\<rparr>"

section \<open>Record Preprocessor (data\_processor.py)\<close>

text \<open>The expected schemas, in the order of the source's dictionaries.\<close>

definition expected_campaign_columns :: "(string \<times> coltype) list" where
  "expected_campaign_columns =
   [    (''campaign_name'', T_STRING), (''ad_name'', T_STRING), (''ad_set_name'', T_STRING),
     (''ad_delivery'', T_STRING), (''starts'', T_DATETIME), (''ends'', T_DATETIME),
     (''reporting_starts'', T_DATETIME), (''reporting_ends'', T_DATETIME),
     (''last_significant_edit'', T_DATETIME), (''wave_number'', T_INT),
     (''attribution_setting'', T_STRING), (''amount_spent_usd'', T_FLOAT),
     (''ad_set_budget'', T_FLOAT), (''ad_set_budget_type'', T_STRING), (''bid'', T_FLOAT),
     (''bid_type'', T_STRING), (''cpm_usd'', T_FLOAT), (''results'', T_INT),
     (''result_indicator'', T_STRING), (''cost_per_result'', T_FLOAT),
     (''frequency'', T_FLOAT), (''reach'', T_INT), (''impressions'', T_INT),
     (''unique_link_clicks'', T_INT), (''landing_page_views'', T_INT),
     (''email_signups'', T_INT), (''kpv_community'', T_INT), (''kpv_tool'', T_INT),
     (''kpv_transformation'', T_INT), (''kpv_support'', T_INT), (''kpv_nohero'', T_INT),
     (''kpv_inspiration'', T_INT), (''kpv_authentic'', T_INT), (''kpv_nextlevel'', T_INT),
     (''kpv_nextchapter'', T_INT), (''kpv_workshop'', T_INT), (''kpv_openhouse'', T_INT),
     (''lead_openhouse'', T_INT), (''lead_workshop'', T_INT), (''lead_info'', T_INT),
     (''click_findout'', T_INT), (''click_letschat'', T_INT), (''click_openhouse'', T_INT),
     (''click_workshop'', T_INT), (''click_info'', T_INT), (''adds_to_cart'', T_INT),
     (''in_app_adds_to_cart'', T_INT), (''website_adds_to_cart'', T_INT),
     (''offline_adds_to_cart'', T_INT), (''meta_add_to_cart'', T_INT),
     (''checkouts_initiated'', T_INT), (''in_app_checkouts'', T_INT),
     (''website_checkouts'', T_INT), (''offline_checkouts'', T_INT),
     (''meta_checkouts'', T_INT), (''purchases'', T_INT), (''in_app_purchases'', T_INT),
     (''website_purchases'', T_INT), (''offline_purchases'', T_INT),
     (''meta_purchases'', T_INT), (''registrations_completed'', T_INT),
     (''in_app_registrations'', T_INT), (''website_registrations'', T_INT),
     (''offline_registrations'', T_INT), (''instagram_profile_visits'', T_INT),
     (''post_comments'', T_INT), (''post_reactions'', T_INT), (''post_saves'', T_INT),
     (''post_shares'', T_INT), (''post_engagements'', T_INT), (''video_avg_play_time'', T_FLOAT)]"

definition expected_naming_columns :: "(string \<times> coltype) list" where
  "expected_naming_columns =
   [    (''ad_set_name'', T_STRING), (''audience'', T_STRING), (''concept'', T_STRING),
     (''position'', T_STRING), (''ad_descriptor'', T_STRING), (''ad_direction'', T_STRING),
     (''landing_page'', T_STRING)]"

definition rename_columns :: "dataframe \<Rightarrow> dataframe" where
  "rename_columns df =
     df\<lparr>columns := map (\<lambda>(col, s). (normalize_column_name (Some col), s)) (columns df)\<rparr>"

definition add_wave_number :: "int \<Rightarrow> dataframe \<Rightarrow> dataframe" where
  "add_wave_number wave_number df =
     set_column ''wave_number'' (scalar_column df Int64 (Num (Fin (of_int wave_number)))) df"

text \<open>
  \<open>df.loc[mask, c] = values\<close>: the cells under the mask take the values of the same rows;
  the column keeps its storage when the assigned cells fit it and becomes an object column
  otherwise.
\<close>

definition fits :: "dtype \<Rightarrow> cell \<Rightarrow> bool" where
  "fits d c =
     (case d of
        Object \<Rightarrow> True
      | Float64 \<Rightarrow> (case c of Num n \<Rightarrow> True | Null k \<Rightarrow> True | _ \<Rightarrow> False)
      | Int64 \<Rightarrow> is_integer_cell c
      | BoolD \<Rightarrow> (case c of Flag b \<Rightarrow> True | _ \<Rightarrow> False)
      | Datetime64 \<Rightarrow> (case c of Stamp t \<Rightarrow> True | Null k \<Rightarrow> True | _ \<Rightarrow> False))"

definition loc_assign :: "series \<Rightarrow> bool list \<Rightarrow> cell list \<Rightarrow> series" where
  "loc_assign s msk vals =
     \<lparr>dtype = (if list_all (fits (dtype s)) (map snd (filter fst (zip msk vals)))
               then dtype s else Object),
      cells = map (\<lambda>(m, old, new). if m then new else old) (zip msk (zip (cells s) vals))\<rparr>"

text \<open>\<open>s.isnull() | (s.astype(str).str.strip() == '')\<close>, for one cell.\<close>

definition null_or_blank :: "pandas \<Rightarrow> cell \<Rightarrow> bool" where
  "null_or_blank P c = (isna c \<or> strip (to_str P c) = [])"

definition fill_from :: "pandas \<Rightarrow> series \<Rightarrow> series \<Rightarrow> series" where
  "fill_from P target source =
     (let null_mask = map (null_or_blank P) (cells target) in
      if list_ex (\<lambda>b. b) null_mask then loc_assign target null_mask (cells source) else target)"

definition reconcile_keys :: "pandas \<Rightarrow> dataframe \<Rightarrow> dataframe" where
  "reconcile_keys P df =
     (case (get_column df ''ad_name'', get_column df ''ad_set_name'') of
        (None, Some ad_set_name) \<Rightarrow> set_column ''ad_name'' ad_set_name df
      | (Some ad_name, None) \<Rightarrow> set_column ''ad_set_name'' ad_name df
      | (Some ad_name, Some ad_set_name) \<Rightarrow>
          (let ad_name' = fill_from P ad_name ad_set_name;
               ad_set_name' = fill_from P ad_set_name ad_name'
           in set_column ''ad_set_name'' ad_set_name' (set_column ''ad_name'' ad_name' df))
      | (None, None) \<Rightarrow> df)"

definition default_column :: "dataframe \<Rightarrow> coltype \<Rightarrow> series" where
  "default_column df t =
     (case t of
        T_INT \<Rightarrow> scalar_column df Object (Null NoneV)
      | T_FLOAT \<Rightarrow> scalar_column df Object (Null NoneV)
      | T_STRING \<Rightarrow> scalar_column df Object (Str [])
      | T_DATETIME \<Rightarrow> scalar_column df Object (Null NoneV))"

fun add_missing_columns :: "(string \<times> coltype) list \<Rightarrow> dataframe \<Rightarrow> dataframe" where
  "add_missing_columns [] df = df"
| "add_missing_columns ((col, t) # rest) df =
     add_missing_columns rest
       (if has_column df col then df else set_column col (default_column df t) df)"

definition convert_column :: "pandas \<Rightarrow> coltype \<Rightarrow> series \<Rightarrow> error + series" where
  "convert_column P t s =
     (case t of
        T_INT \<Rightarrow> Inr (to_numeric P s)
      | T_FLOAT \<Rightarrow> Inr (to_numeric P s)
      | T_STRING \<Rightarrow> Inr (fillna (Str []) (astype_str P s))
      | T_DATETIME \<Rightarrow> to_datetime P s)"

fun convert_expected_columns ::
  "pandas \<Rightarrow> (string \<times> coltype) list \<Rightarrow> dataframe \<Rightarrow> error + dataframe" where
  "convert_expected_columns P [] df = Inr df"
| "convert_expected_columns P ((col, t) # rest) df =
     (case get_column df col of
        None \<Rightarrow> convert_expected_columns P rest df
      | Some s \<Rightarrow>
          and_then (convert_column P t s)
            (\<lambda>s'. convert_expected_columns P rest (set_column col s' df)))"

fun convert_new_columns :: "pandas \<Rightarrow> string list \<Rightarrow> dataframe \<Rightarrow> error + dataframe" where
  "convert_new_columns P [] df = Inr df"
| "convert_new_columns P (col # rest) df =
     (case get_column df col of
        None \<Rightarrow> Inl KeyError
      | Some s \<Rightarrow>
          and_then (infer_column_type P s)
            (\<lambda>inferred_type.
               and_then (convert_column P inferred_type s)
                 (\<lambda>s'. convert_new_columns P rest (set_column col s' df))))"

definition process_new_columns :: "pandas \<Rightarrow> dataframe \<Rightarrow> error + dataframe" where
  "process_new_columns P df =
     (let new_cols = filter (\<lambda>col. col \<notin> set (map fst expected_campaign_columns)) (labels df)
      in convert_new_columns P new_cols df)"

text \<open>
  \<open>drop_duplicates()\<close>: a row equal to an earlier one in every column is removed; missing
  cells count as equal.
\<close>

definition row_at :: "dataframe \<Rightarrow> nat \<Rightarrow> cell list" where
  "row_at df i = map (\<lambda>(col, s). cells s ! i) (columns df)"

definition same_cell :: "cell \<Rightarrow> cell \<Rightarrow> bool" where
  "same_cell a b = (a = b \<or> (isna a \<and> isna b))"

definition kept_rows :: "dataframe \<Rightarrow> nat list" where
  "kept_rows df =
     filter (\<lambda>i. \<not> list_ex (\<lambda>j. list_all2 same_cell (row_at df j) (row_at df i)) [0..<i])
       [0..<nrows df]"

definition drop_duplicates :: "dataframe \<Rightarrow> dataframe" where
  "drop_duplicates df =
     (let keep = kept_rows df in
      \<lparr>nrows = length keep,
       columns = map (\<lambda>(col, s). (col, s\<lparr>cells := map (\<lambda>i. cells s ! i) keep\<rparr>)) (columns df)\<rparr>)"

definition preprocess_campaign_data :: "pandas \<Rightarrow> dataframe \<Rightarrow> int \<Rightarrow> error + dataframe" where
  "preprocess_campaign_data P df wave_number =
     and_then (clean_time_formatted_values P (rename_columns df))
       (\<lambda>cleaned.
          and_then
            (convert_expected_columns P expected_campaign_columns
               (add_missing_columns expected_campaign_columns
                  (reconcile_keys P (add_wave_number wave_number cleaned))))
            (\<lambda>converted.
               and_then (process_new_columns P converted)
                 (\<lambda>processed. Inr (drop_duplicates processed))))"

definition preprocess_naming_data :: "pandas \<Rightarrow> dataframe \<Rightarrow> int \<Rightarrow> error + dataframe" where
  "preprocess_naming_data P df wave_number =
     and_then
       (convert_expected_columns P expected_naming_columns
          (add_missing_columns expected_naming_columns
             (add_wave_number wave_number (rename_columns df))))
       (\<lambda>converted. Inr (drop_duplicates converted))"

section \<open>The warehouse session (snowflake\_operations.py)\<close>

text \<open>
  The source talks to the warehouse through SQL text and the Snowpark writer. A statement
  is modelled by its kind and the variable parts of its text; a call either raises
  (\<open>Failed\<close>) or returns rows, of which the source reads only the first field of each.
  The session is a parameter: any function from a state and a statement to a response and
  the next state. Every call is recorded, with its response, in a log.
\<close>

datatype sftype = TIMESTAMP | INTEGER | SF_FLOAT | BOOLEAN | SF_STRING

datatype stmt =
    DescribeTable string
  | AlterTableAddColumn string string sftype
  | SelectCurrentDatabase
  | SaveAsTable string dataframe
  | MergeInto string string string "string list" "string list"
  | DropTableIfExists string

datatype response = Failed | Rows "string list"

type_synonym 's session = "'s \<Rightarrow> stmt \<Rightarrow> response \<times> 's"

type_synonym 's conn = "'s \<times> (stmt \<times> response) list"

definition sql :: "'s session \<Rightarrow> stmt \<Rightarrow> 's conn \<Rightarrow> response \<times> 's conn" where
  "sql X q c = (case X (fst c) q of (r, st) \<Rightarrow> (r, (st, snd c @ [(q, r)])))"

text \<open>
  \<open>infer_snowflake_type\<close>: the inferrer once more, with the warehouse's type names and
  \<open>BOOLEAN\<close> for a flag column.
\<close>

definition try_timestamp :: "pandas \<Rightarrow> cell list \<Rightarrow> sftype" where
  "try_timestamp P non_null =
     (case to_datetime_col P non_null of
        None \<Rightarrow> SF_STRING
      | Some parse \<Rightarrow>
          (let datetime_converted = map parse non_null in
           if rate_above (length (successes datetime_converted)) (length non_null)
           then TIMESTAMP else SF_STRING))"

definition infer_snowflake_type :: "pandas \<Rightarrow> series \<Rightarrow> error + sftype" where
  "infer_snowflake_type P s =
     (if dtype s = Datetime64 then Inr TIMESTAMP
      else if dtype s = Int64 then Inr INTEGER
      else if dtype s = Float64 then Inr SF_FLOAT
      else if dtype s = BoolD then Inr BOOLEAN
      else
        (let non_null = dropna (cells s) in
         if length non_null = 0 then Inr SF_STRING
         else
           (let numeric_converted = map (to_numeric_cell P) non_null;
                successful_numeric = successes numeric_converted in
            if rate_above (length successful_numeric) (length non_null)
               \<and> length successful_numeric > 0
            then
              (case astype_int successful_numeric of
                 Inl e \<Rightarrow> Inl e
               | Inr as_int \<Rightarrow>
                   Inr (if list_all2 (\<lambda>n i. n = Fin (of_int i)) successful_numeric as_int
                        then INTEGER else SF_FLOAT))
            else Inr (try_timestamp P non_null))))"

text \<open>\<open>get_table_columns\<close>: the lower-cased column names, or nothing when the call raises.\<close>

definition get_table_columns :: "'s session \<Rightarrow> string \<Rightarrow> 's conn \<Rightarrow> string list \<times> 's conn" where
  "get_table_columns X table_name c =
     (case sql X (DescribeTable table_name) c of
        (Failed, c') \<Rightarrow> ([], c')
      | (Rows result, c') \<Rightarrow> (map lower result, c'))"

datatype message =
    ConnectionFailed
  | CouldNotReadSchema
  | SchemaUpToDate
  | AddedColumns nat
  | SchemaExpansionError error
  | NoMatchingColumns
  | Upserted nat "string list"
  | ErrorMessage error

text \<open>
  The loop of \<open>expand_table_schema\<close> over the new columns. The type is inferred outside the
  inner \<open>try\<close>: an exception there leaves the loop. A failed \<open>ALTER TABLE\<close> is inside it:
  the loop goes on, the count does not. The statement's text upper-cases the column name.
\<close>

fun add_columns ::
  "pandas \<Rightarrow> 's session \<Rightarrow> string \<Rightarrow> dataframe \<Rightarrow> string list \<Rightarrow> nat \<Rightarrow> 's conn
   \<Rightarrow> (error + nat) \<times> 's conn" where
  "add_columns P X table_name df [] columns_added c = (Inr columns_added, c)"
| "add_columns P X table_name df (col_name # rest) columns_added c =
     (let original_col =
        (case find (\<lambda>l. lower l = col_name) (labels df) of Some l \<Rightarrow> l | None \<Rightarrow> col_name)
      in case get_column df original_col of
           None \<Rightarrow> (Inl KeyError, c)
         | Some s \<Rightarrow>
             (case infer_snowflake_type P s of
                Inl e \<Rightarrow> (Inl e, c)
              | Inr snowflake_type \<Rightarrow>
                  (case sql X (AlterTableAddColumn table_name col_name snowflake_type) c of
                     (Failed, c') \<Rightarrow> add_columns P X table_name df rest columns_added c'
                   | (Rows r, c') \<Rightarrow>
                       add_columns P X table_name df rest (columns_added + 1) c')))"

text \<open>
  \<open>expand_table_schema\<close>. The new columns are a Python set, iterated in an order the
  language does not fix: \<open>order\<close> is that order, a parameter.
\<close>

definition expand_table_schema ::
  "pandas \<Rightarrow> 's session \<Rightarrow> (string list \<Rightarrow> string list) \<Rightarrow> string \<Rightarrow> dataframe
   \<Rightarrow> string list \<Rightarrow> 's conn \<Rightarrow> (bool \<times> message \<times> nat) \<times> 's conn" where
  "expand_table_schema P X order table_name df exclude_columns c =
     (case get_table_columns X table_name c of
        (existing_columns, c1) \<Rightarrow>
          if existing_columns = [] then ((False, CouldNotReadSchema, 0), c1)
          else
            (let df_columns = remdups (map lower (labels df));
                 new_columns =
                   filter (\<lambda>col. col \<notin> set existing_columns
                                  \<and> col \<notin> set (map lower exclude_columns)) df_columns
             in if new_columns = [] then ((True, SchemaUpToDate, 0), c1)
                else
                  (case add_columns P X table_name df (order new_columns) 0 c1 of
                     (Inl e, c2) \<Rightarrow> ((False, SchemaExpansionError e, 0), c2)
                   | (Inr columns_added, c2) \<Rightarrow>
                       ((True, AddedColumns columns_added, columns_added), c2))))"

text \<open>\<open>str()\<close> of a Python integer, as the f-strings of the table names use it.\<close>

fun digits :: "nat \<Rightarrow> string" where
  "digits n = (if n < 10 then [char_of (48 + n)] else digits (n div 10) @ [char_of (48 + n mod 10)])"

definition str_int :: "int \<Rightarrow> string" where
  "str_int i = (if i < 0 then CHR ''-'' # digits (nat (- i)) else digits (nat i))"

text \<open>\<open>df[cols]\<close>: the listed columns, in the order listed.\<close>

definition select_columns :: "string list \<Rightarrow> dataframe \<Rightarrow> dataframe" where
  "select_columns cols df =
     df\<lparr>columns :=
          concat (map (\<lambda>col. case get_column df col of None \<Rightarrow> [] | Some s \<Rightarrow> [(col, s)]) cols)\<rparr>"

text \<open>
  \<open>populate_naming_keys_table\<close> and \<open>populate_campaign_data_table\<close> are the same text up to
  the table's name, the temporary table's name and the key column; \<open>upsert\<close> is that text
  once a connection is there, with the three as parameters. \<open>prefix\<close> is
  \<open>platform.upper()\<close> and \<open>now\<close> the value of \<open>datetime.now()\<close>. It returns the result, the
  caller's frame as the call leaves it (the source assigns to \<open>df\<close> itself), and the
  connection. Every exception inside is caught by the outer \<open>except\<close> and becomes a failure
  result. \<open>merge_and_drop\<close> is the \<open>try ... except: raise ... finally\<close> block: the drop runs
  after the merge whatever the merge did, and a failure of the drop is only logged.
  \<open>stage_and_merge\<close> is the text from the query of the current database to that block.
\<close>

definition merge_and_drop ::
  "'s session \<Rightarrow> string \<Rightarrow> string \<Rightarrow> string \<Rightarrow> dataframe \<Rightarrow> string list \<Rightarrow> 's conn
   \<Rightarrow> (bool \<times> message) \<times> 's conn" where
  "merge_and_drop X full_table_name full_temp_table key df_filtered missing_for_upload c =
     (let all_columns = labels df_filtered;
          update_columns = filter (\<lambda>col. lower col \<noteq> key) all_columns
      in case sql X (MergeInto full_table_name full_temp_table key update_columns all_columns) c of
           (merged, c') \<Rightarrow>
        (case sql X (DropTableIfExists full_temp_table) c' of
           (dropped, c'') \<Rightarrow>
        (case merged of
           Failed \<Rightarrow> ((False, ErrorMessage SessionError), c'')
         | Rows merge_rows \<Rightarrow>
             ((True, Upserted (nrows df_filtered) missing_for_upload), c''))))"

definition stage_and_merge ::
  "'s session \<Rightarrow> string \<Rightarrow> string \<Rightarrow> string \<Rightarrow> string \<Rightarrow> dataframe \<Rightarrow> string list
   \<Rightarrow> 's conn \<Rightarrow> (bool \<times> message) \<times> 's conn" where
  "stage_and_merge X schema_name table temp_table_unqualified key df_filtered
     missing_for_upload c =
     (case sql X SelectCurrentDatabase c of
        (Failed, c') \<Rightarrow> ((False, ErrorMessage SessionError), c')
      | (Rows [], c') \<Rightarrow> ((False, ErrorMessage IndexError), c')
      | (Rows (current_db # others), c') \<Rightarrow>
          (let full_temp_table =
                 current_db @ ''.'' @ schema_name @ ''.'' @ temp_table_unqualified;
               full_table_name = current_db @ ''.'' @ schema_name @ ''.'' @ table
           in case sql X (SaveAsTable full_temp_table df_filtered) c' of
                (Failed, c'') \<Rightarrow> ((False, ErrorMessage SessionError), c'')
              | (Rows saved, c'') \<Rightarrow>
                  merge_and_drop X full_table_name full_temp_table key df_filtered
                    missing_for_upload c''))"

definition upsert ::
  "pandas \<Rightarrow> 's session \<Rightarrow> (string list \<Rightarrow> string list) \<Rightarrow> string \<Rightarrow> string \<Rightarrow> string
   \<Rightarrow> dataframe \<Rightarrow> string \<Rightarrow> string \<Rightarrow> int \<Rightarrow> int \<Rightarrow> 's conn
   \<Rightarrow> (bool \<times> message) \<times> dataframe \<times> 's conn" where
  "upsert P X order table_suffix temp_infix key df schema_name prefix wave_number now c =
     (let df1 = (if has_column df ''wave_number'' then df
                 else set_column ''wave_number''
                        (scalar_column df Int64 (Num (Fin (of_int wave_number)))) df);
          df2 = set_column ''upload_timestamp'' (scalar_column df1 Datetime64 (Stamp now)) df1;
          table = prefix @ table_suffix;
          full_table_name_for_schema = schema_name @ ''.'' @ table
      in case expand_table_schema P X order full_table_name_for_schema df2
                [''upload_timestamp''] c of
           (expanded, c1) \<Rightarrow>
        (case get_table_columns X full_table_name_for_schema c1 of
           (existing_columns, c2) \<Rightarrow>
        (let filtered_columns = filter (\<lambda>col. lower col \<in> set existing_columns) (labels df2);
             missing_for_upload = filter (\<lambda>col. lower col \<notin> set existing_columns) (labels df2)
         in if filtered_columns = [] then ((False, NoMatchingColumns), df2, c2)
            else
              (case stage_and_merge X schema_name table (prefix @ temp_infix @ str_int wave_number)
                      key (select_columns filtered_columns df2) missing_for_upload c2 of
                 (result, c3) \<Rightarrow> (result, df2, c3)))))"

text \<open>
  The two operations. \<open>conn\<close> is the argument of that name (a session state, or \<open>None\<close>)
  and \<open>connect\<close> what \<open>get_snowflake_connection()\<close> gives when it is called. Without a
  connection the call returns before it touches the frame.
\<close>

definition populate ::
  "pandas \<Rightarrow> 's session \<Rightarrow> (string list \<Rightarrow> string list) \<Rightarrow> 's option \<Rightarrow> string \<Rightarrow> string
   \<Rightarrow> string \<Rightarrow> dataframe \<Rightarrow> string \<Rightarrow> string \<Rightarrow> int \<Rightarrow> int \<Rightarrow> 's option
   \<Rightarrow> (bool \<times> message) \<times> dataframe \<times> 's conn option" where
  "populate P X order connect table_suffix temp_infix key df schema_name prefix wave_number
     now conn =
     (case (case conn of None \<Rightarrow> connect | Some st \<Rightarrow> Some st) of
        None \<Rightarrow> ((False, ConnectionFailed), df, None)
      | Some st \<Rightarrow>
          (case upsert P X order table_suffix temp_infix key df schema_name prefix
                  wave_number now (st, []) of
             (result, df', c) \<Rightarrow> (result, df', Some c)))"

definition populate_naming_keys_table ::
  "pandas \<Rightarrow> 's session \<Rightarrow> (string list \<Rightarrow> string list) \<Rightarrow> 's option \<Rightarrow> dataframe \<Rightarrow> string
   \<Rightarrow> string \<Rightarrow> int \<Rightarrow> int \<Rightarrow> 's option \<Rightarrow> (bool \<times> message) \<times> dataframe \<times> 's conn option" where
  "populate_naming_keys_table P X order connect =
     populate P X order connect ''_NAMING_KEYS'' ''_NAMING_KEYS_TEMP_'' ''ad_set_name''"

definition populate_campaign_data_table ::
  "pandas \<Rightarrow> 's session \<Rightarrow> (string list \<Rightarrow> string list) \<Rightarrow> 's option \<Rightarrow> dataframe \<Rightarrow> string
   \<Rightarrow> string \<Rightarrow> int \<Rightarrow> int \<Rightarrow> 's option \<Rightarrow> (bool \<times> message) \<times> dataframe \<times> 's conn option" where
  "populate_campaign_data_table P X order connect =
     populate P X order connect ''_PROCESSED_CAMPAIGN_DATA'' ''_CAMPAIGN_DATA_TEMP_'' ''ad_name''"

text \<open>The caller's frame after the two assignments that open either operation.\<close>

definition stamped :: "dataframe \<Rightarrow> int \<Rightarrow> int \<Rightarrow> dataframe" where
  "stamped df wave_number now =
     (let df1 = (if has_column df ''wave_number'' then df
                 else set_column ''wave_number''
                        (scalar_column df Int64 (Num (Fin (of_int wave_number)))) df)
      in set_column ''upload_timestamp'' (scalar_column df1 Datetime64 (Stamp now)) df1)"

text \<open>Entries of the log: a column addition on a table, and a call that did not raise.\<close>

definition is_alter :: "string \<Rightarrow> stmt \<times> response \<Rightarrow> bool" where
  "is_alter t e = (case fst e of AlterTableAddColumn t' col ty \<Rightarrow> t' = t | _ \<Rightarrow> False)"

definition succeeded :: "stmt \<times> response \<Rightarrow> bool" where
  "succeeded e = (snd e \<noteq> Failed)"

definition described :: "response \<Rightarrow> string list" where
  "described r = (case r of Failed \<Rightarrow> [] | Rows rs \<Rightarrow> map lower rs)"

section \<open>A sample of the library's behaviour\<close>

text \<open>
  The theorems below hold for every behaviour \<open>P\<close> of the library. Where a concrete column
  is evaluated, the library is \<open>sample_pandas\<close>: a text cell coerces to a number when it is
  a decimal integer literal or the text \<open>inf\<close> (which \<open>pd.to_numeric\<close> reads as the float
  infinity), a numeric cell coerces to itself, a flag to 0 or 1, nothing else coerces; no
  cell parses as a timestamp; a number prints as \<open>inf\<close> or as the decimal digits of its
  integer part.
\<close>

definition decimal :: "string \<Rightarrow> nat option" where
  "decimal s =
     (if s \<noteq> [] \<and> list_all is_digit s
      then Some (foldl (\<lambda>a c. 10 * a + (code c - 48)) 0 s) else None)"

definition sample_to_numeric :: "cell \<Rightarrow> number option" where
  "sample_to_numeric c =
     (case c of
        Str s \<Rightarrow> (if s = ''inf'' then Some Infinite
                  else map_option (\<lambda>n. Fin (of_nat n)) (decimal s))
      | Num n \<Rightarrow> Some n
      | Flag b \<Rightarrow> Some (Fin (if b then 1 else 0))
      | _ \<Rightarrow> None)"

definition sample_str_number :: "number \<Rightarrow> string" where
  "sample_str_number n = (case n of Fin r \<Rightarrow> str_int (trunc r) | Infinite \<Rightarrow> ''inf'')"

definition sample_pandas :: pandas where
  "sample_pandas =
     \<lparr> to_numeric_cell = sample_to_numeric,
       to_datetime_col = (\<lambda>cs. Some (\<lambda>c. None)),
       str_number = sample_str_number,
       str_stamp = str_int \<rparr>"



text \<open>
  A sample warehouse: its state is the column list of the one destination table. A
  table without columns cannot be described; adding a column appends it; the merge fails
  when the staged columns lack the key the \<open>ON\<close> clause names; every other call succeeds.
\<close>

definition sample_session :: "string list session" where
  "sample_session cols q =
     (case q of
        DescribeTable t \<Rightarrow> (if cols = [] then Failed else Rows cols, cols)
      | AlterTableAddColumn t col ty \<Rightarrow> (Rows [], cols @ [col])
      | SelectCurrentDatabase \<Rightarrow> (Rows [''DB''], cols)
      | SaveAsTable t d \<Rightarrow> (Rows [], cols)
      | MergeInto target source key update_columns all_columns \<Rightarrow>
          (if key \<in> set all_columns then Rows [] else Failed, cols)
      | DropTableIfExists t \<Rightarrow> (Rows [], cols))"

section \<open>Properties of the Name Normalizer\<close>

text \<open>
  C4. The normalizer maps \<open>Ad Set Name!!\<close> to \<open>ad_set_name\<close>, as claimed. It is not
  idempotent: the character class that deletes symbols deletes the underscore too, so the
  canonical name \<open>ad_set_name\<close> is not returned unchanged but normalizes to \<open>adsetname\<close>,
  and normalizing \<open>Ad Set Name!!\<close> twice differs from normalizing it once.
\<close>

theorem normalize_column_name_canonical_changes:
  "normalize_column_name (Some ''Ad Set Name!!'') = ''ad_set_name''
   \<and> normalize_column_name (Some ''ad_set_name'') = ''adsetname''
   \<and> normalize_column_name (Some (normalize_column_name (Some ''Ad Set Name!!'')))
       \<noteq> normalize_column_name (Some ''Ad Set Name!!'')"
  by code_simp

section \<open>Properties of the Type Inferrer\<close>

lemma length_successes:
  "length (successes (map f xs)) = length (filter (\<lambda>c. f c \<noteq> None) xs)"
  by (induction xs) (auto simp: successes_def split: option.splits)

lemma rate_above_pos: "rate_above k n \<Longrightarrow> 0 < k"
  by (cases k) (auto simp: rate_above_def)

lemma trunc_eq_iff: "(r = of_int (trunc r)) = (r = of_int \<lfloor>r\<rfloor>)"
  unfolding trunc_def by (metis ceiling_of_int floor_of_int)

lemma castable_finite: "list_all castable ns \<Longrightarrow> list_all is_finite ns"
  by (induction ns) (auto simp: castable_def is_finite_def split: number.splits)

lemma integer_check:
  "list_all castable ns \<Longrightarrow>
   list_all2 (\<lambda>n i. n = Fin (of_int i)) ns (map cast_int64 ns) = list_all zero_fraction ns"
  by (induction ns)
     (auto simp: castable_def cast_int64_def zero_fraction_def trunc_eq_iff split: number.splits)

text \<open>
  On a column of object storage whose coerced values are all finite and within the 64-bit
  range, the inferrer returns, and returns what the algorithm of the specification gives.
\<close>

lemma infer_column_type_refines:
  assumes "dtype s = Object"
    and "list_all castable (numeric_values P (dropna (cells s)))"
  shows "infer_column_type P s = Inr (infer_spec P (cells s))"
proof -
  let ?nn = "dropna (cells s)"
  let ?ok = "numeric_values P ?nn"
  have dt: "try_datetime P ?nn =
      (if rate_above (datetime_count P ?nn) (length ?nn) then T_DATETIME else T_STRING)"
    by (auto simp: try_datetime_def datetime_count_def length_successes rate_above_def
        split: option.splits)
  have cast: "astype_int ?ok = Inr (map cast_int64 ?ok)"
    using castable_finite [OF assms(2)] by (simp add: astype_int_def)
  show ?thesis
  proof (cases "?nn = []")
    case True
    then show ?thesis using assms(1)
      by (simp add: infer_column_type_def infer_spec_def dropna_def)
  next
    case False
    show ?thesis
    proof (cases "rate_above (length ?ok) (length ?nn)")
      case True
      then have "0 < length ?ok" by (rule rate_above_pos)
      with True False assms show ?thesis
        using cast integer_check [OF assms(2)]
        by (simp add: infer_column_type_def infer_spec_def Let_def numeric_values_def dropna_def)
    next
      case nr: False
      with False assms(1) dt show ?thesis
        by (simp add: infer_column_type_def infer_spec_def Let_def numeric_values_def dropna_def)
    qed
  qed
qed

text \<open>
  C3. The claim holds on every column whose coerced values are finite and within the
  64-bit range (\<open>infer_column_type_refines\<close>). It fails where a coerced value is an infinity: on the
  text column \<open>inf, inf, inf, inf, inf, abc\<close> five of six cells coerce, the rate exceeds 0.8,
  and the cast to integer of the coerced values raises; the inferrer returns neither
  \<open>INT\<close> nor \<open>FLOAT\<close>, it does not return.
\<close>

theorem infer_column_type_raises_on_infinity:
  "infer_column_type sample_pandas
     \<lparr> dtype = Object,
       cells = [Str ''inf'', Str ''inf'', Str ''inf'', Str ''inf'', Str ''inf'', Str ''abc''] \<rparr>
   = Inl IntCastingNaNError"
  by code_simp

section \<open>Properties of the Record Preprocessor\<close>

lemma get_set_column:
  "get_column (set_column c s df) c' = (if c' = c then Some s else get_column df c')"
  by (simp add: get_column_def set_column_def update_conv')

lemma labels_set_column:
  "labels (set_column c s df) = (if c \<in> set (labels df) then labels df else labels df @ [c])"
  by (simp add: labels_def set_column_def update_keys)

lemma nrows_set_column: "nrows (set_column c s df) = nrows df"
  by (simp add: set_column_def)






text \<open>
  C7. String coercion is \<open>astype(str).fillna('')\<close>: the conversion to text comes first and
  turns a missing cell into the text \<open>nan\<close>, so the fill that follows finds nothing
  missing. A naming table whose \<open>Audience\<close> column has a missing cell comes out with the
  text \<open>nan\<close> in that cell, not with the empty string. The absent declared columns are
  added as empty strings, as claimed.
\<close>

theorem string_coercion_keeps_missing_as_text:
  "preprocess_naming_data sample_pandas
     \<lparr>nrows = 2,
      columns = [(''Ad Set Name'', \<lparr>dtype = Object, cells = [Str ''A'', Str ''B'']\<rparr>),
                 (''Audience'', \<lparr>dtype = Object, cells = [Null NaN, Str ''x'']\<rparr>)]\<rparr> 3
   = Inr \<lparr>nrows = 2,
        columns =
          [(''ad_set_name'', \<lparr>dtype = Object, cells = [Str ''A'', Str ''B'']\<rparr>),
           (''audience'', \<lparr>dtype = Object, cells = [Str ''nan'', Str ''x'']\<rparr>),
           (''wave_number'', \<lparr>dtype = Int64, cells = [Num (Fin 3), Num (Fin 3)]\<rparr>),
           (''concept'', \<lparr>dtype = Object, cells = [Str [], Str []]\<rparr>),
           (''position'', \<lparr>dtype = Object, cells = [Str [], Str []]\<rparr>),
           (''ad_descriptor'', \<lparr>dtype = Object, cells = [Str [], Str []]\<rparr>),
           (''ad_direction'', \<lparr>dtype = Object, cells = [Str [], Str []]\<rparr>),
           (''landing_page'', \<lparr>dtype = Object, cells = [Str [], Str []]\<rparr>)]\<rparr>"
  by code_simp

section \<open>Properties of the Anomaly Scrubber\<close>

lemma clean_column_spec:
  "clean_column P s = Inr s' \<Longrightarrow> s' = (if should_scrub P s then scrubbed P s else s)"
  by (auto simp: clean_column_def and_then_def should_scrub_def scrubbed_def scrub_cell_def
      split: if_splits sum.splits)

lemma clean_columns_spec:
  "clean_columns P cs = Inr cs' \<Longrightarrow>
   cs' = map (\<lambda>(col, s). (col, if should_scrub P s then scrubbed P s else s)) cs"
proof (induction cs arbitrary: cs')
  case Nil
  then show ?case by simp
next
  case (Cons p cs)
  obtain col s where p: "p = (col, s)" by (cases p)
  from Cons.prems obtain s' rest' where
    a: "clean_column P s = Inr s'" and b: "clean_columns P cs = Inr rest'"
    and c: "cs' = (col, s') # rest'"
    by (auto simp: p and_then_def split: sum.splits)
  from clean_column_spec [OF a] Cons.IH [OF b] c show ?case by (simp add: p)
qed

lemma to_str_null: "isna c \<Longrightarrow> \<not> time_pattern (to_str P c)"
  by (cases c rule: cell.exhaust; simp add: isna_def)
     (rename_tac k, case_tac k; simp add: to_str_def time_pattern_def clock_text_def mmss_def is_digit_def code_def)

lemma dropna_scrub:
  "dropna (map (scrub_cell P) cs) = filter (\<lambda>c. \<not> time_pattern (to_str P c)) (dropna cs)"
  by (induction cs) (auto simp: dropna_def scrub_cell_def isna_def to_str_null)

lemma successes_filter:
  "\<forall>c\<in>set cs. \<not> keep c \<longrightarrow> f c = None \<Longrightarrow>
   successes (map f (filter keep cs)) = successes (map f cs)"
  by (induction cs) (auto simp: successes_def)

lemma rate_above_mono: "rate_above k n \<Longrightarrow> m \<le> n \<Longrightarrow> 0 < m \<Longrightarrow> rate_above k m"
proof -
  assume a: "rate_above k n" and b: "m \<le> n" and c: "0 < m"
  have le: "(of_nat k :: rat) / of_nat n \<le> of_nat k / of_nat m"
    using b c by (simp add: frac_le)
  from a have "(8 / 10 :: rat) < of_nat k / of_nat n"
    unfolding rate_above_def .
  from this le have "(8 / 10 :: rat) < of_nat k / of_nat m" by (rule less_le_trans)
  then show ?thesis unfolding rate_above_def .
qed

lemma infer_numeric:
  assumes "dtype s = Object"
    and "rate_above (length (successes (map (to_numeric_cell P) (dropna (cells s)))))
           (length (dropna (cells s)))"
    and "dropna (cells s) \<noteq> []"
    and "successes (map (to_numeric_cell P) (dropna (cells s))) = ok"
  shows "infer_column_type P s =
     (case astype_int ok of
        Inl e \<Rightarrow> Inl e
      | Inr as_int \<Rightarrow>
          Inr (if list_all2 (\<lambda>n i. n = Fin (of_int i)) ok as_int then T_INT else T_FLOAT))"
proof -
  from assms(2) have "0 < length (successes (map (to_numeric_cell P) (dropna (cells s))))"
    by (rule rate_above_pos)
  with assms show ?thesis
    by (auto simp: infer_column_type_def Let_def split: sum.splits)
qed

lemma infer_scrubbed:
  assumes t: "infer_column_type P s = Inr t" "t = T_INT \<or> t = T_FLOAT"
    and nn: "\<not> is_numeric_dtype (dtype s)"
    and H: "\<forall>c\<in>set (cells s). time_pattern (to_str P c) \<longrightarrow> to_numeric_cell P c = None"
  shows "infer_column_type P (s\<lparr>cells := map (scrub_cell P) (cells s)\<rparr>) = Inr t"
proof -
  let ?nn = "dropna (cells s)"
  let ?ok = "successes (map (to_numeric_cell P) ?nn)"
  let ?nn' = "dropna (map (scrub_cell P) (cells s))"
  have obj: "dtype s = Object"
    using t nn by (cases "dtype s") (auto simp: infer_column_type_def is_numeric_dtype_def)
  have ne: "?nn \<noteq> []"
    using t obj by (auto simp: infer_column_type_def)
  have dtne: "try_datetime P ?nn \<noteq> T_INT" "try_datetime P ?nn \<noteq> T_FLOAT"
    by (auto simp: try_datetime_def Let_def split: option.splits)
  have rate: "rate_above (length ?ok) (length ?nn)" and pos: "0 < length ?ok"
    using t obj ne dtne by (auto simp: infer_column_type_def Let_def split: if_splits)
  have ok': "successes (map (to_numeric_cell P) ?nn') = ?ok"
    unfolding dropna_scrub
    by (rule successes_filter) (use H in \<open>auto simp: dropna_def\<close>)
  have le: "length ?nn' \<le> length ?nn"
    unfolding dropna_scrub by simp
  have "length ?ok \<le> length ?nn'"
    unfolding ok' [symmetric] by (simp add: length_successes)
  with pos have pos': "0 < length ?nn'" by (rule less_le_trans)
  have rate': "rate_above (length ?ok) (length ?nn')"
    using rate le pos' by (rule rate_above_mono)
  have ne': "?nn' \<noteq> []" using pos' by simp
  have "infer_column_type P (s\<lparr>cells := map (scrub_cell P) (cells s)\<rparr>)
      = infer_column_type P s"
    using infer_numeric [of "s\<lparr>cells := map (scrub_cell P) (cells s)\<rparr>" P ?ok]
      infer_numeric [of s P ?ok] obj rate rate' ne ne' ok'
    by simp
  with t(1) show ?thesis by simp
qed

text \<open>
  When the scrubber returns, it has replaced the clock texts by the missing marker in
  exactly the columns that are not natively numeric and infer as \<open>INT\<close> or \<open>FLOAT\<close>, and
  left every other column as it was.
\<close>

lemma clean_time_formatted_values_spec:
  assumes "clean_time_formatted_values P df = Inr df'"
  shows "df' = df\<lparr>columns :=
           map (\<lambda>(col, s). (col, if should_scrub P s then scrubbed P s else s)) (columns df)\<rparr>"
proof -
  from assms obtain cs where cs: "clean_columns P (columns df) = Inr cs"
    and df': "df' = df\<lparr>columns := cs\<rparr>"
    by (auto simp: clean_time_formatted_values_def and_then_def split: sum.splits)
  from clean_columns_spec [OF cs] df' show ?thesis by simp
qed

section \<open>Properties of the campaign pipeline\<close>


lemma get_rename:
  assumes "(col0, s) \<in> set (columns df)" and "distinct (labels (rename_columns df))"
  shows "get_column (rename_columns df) (normalize_column_name (Some col0)) = Some s"
proof -
  have "(normalize_column_name (Some col0), s) \<in> set (columns (rename_columns df))"
    using assms(1) by (force simp: rename_columns_def)
  with assms(2) show ?thesis
    by (simp add: get_column_def labels_def)
qed

lemma get_clean:
  assumes "clean_time_formatted_values P df = Inr df'" and "get_column df c = Some s"
  shows "get_column df' c = Some (if should_scrub P s then scrubbed P s else s)"
proof -
  from assms(1) obtain cs where cs: "clean_columns P (columns df) = Inr cs"
    and df': "df' = df\<lparr>columns := cs\<rparr>"
    by (auto simp: clean_time_formatted_values_def and_then_def split: sum.splits)
  have "map_of (map (\<lambda>(col, s). (col, g s)) xs) c = map_option g (map_of xs c)"
    for g :: "series \<Rightarrow> series" and xs
    by (induction xs) auto
  with clean_columns_spec [OF cs] assms(2) show ?thesis
    by (simp add: df' get_column_def)
qed


lemma get_reconcile_other:
  "c \<noteq> ''ad_name'' \<Longrightarrow> c \<noteq> ''ad_set_name'' \<Longrightarrow>
   get_column (reconcile_keys P df) c = get_column df c"
  by (simp add: reconcile_keys_def get_set_column Let_def split: option.splits)



lemma get_convert_new:
  assumes "convert_new_columns P cols df = Inr df'" and "get_column df c = Some s"
    and "distinct cols"
  shows "if c \<in> set cols
         then (\<exists>t s'. infer_column_type P s = Inr t \<and> convert_column P t s = Inr s'
                 \<and> get_column df' c = Some s')
         else get_column df' c = Some s"
  using assms
proof (induction cols arbitrary: df s)
  case Nil
  then show ?case by simp
next
  case (Cons col cols)
  from Cons.prems(3) have dist: "distinct cols" and notin: "col \<notin> set cols" by auto
  from Cons.prems(1) obtain sc t sc' where g: "get_column df col = Some sc"
    and inf: "infer_column_type P sc = Inr t" and conv: "convert_column P t sc = Inr sc'"
    and rest: "convert_new_columns P cols (set_column col sc' df) = Inr df'"
    by (auto simp: and_then_def split: option.splits sum.splits)
  show ?case
  proof (cases "col = c")
    case True
    have "get_column (set_column col sc' df) c = Some sc'"
      using True by (simp add: get_set_column)
    from Cons.IH [OF rest this dist] notin True have "get_column df' c = Some sc'" by simp
    moreover have "sc = s" using g Cons.prems(2) True by simp
    ultimately show ?thesis using inf conv True by auto
  next
    case False
    then have "get_column (set_column col sc' df) c = Some s"
      using Cons.prems(2) by (simp add: get_set_column)
    from Cons.IH [OF rest this dist] False show ?thesis by simp
  qed
qed

text \<open>
  The pipeline and its conversion loop, in the form in which they are evaluated: the rest
  of the loop is looked at only once the step before it has returned.
\<close>

lemma preprocess_campaign_data_code [code]:
  "preprocess_campaign_data P df wave_number =
     (case clean_time_formatted_values P (rename_columns df) of
        Inl e \<Rightarrow> Inl e
      | Inr cleaned \<Rightarrow>
          (case convert_expected_columns P expected_campaign_columns
                  (add_missing_columns expected_campaign_columns
                     (reconcile_keys P (add_wave_number wave_number cleaned))) of
             Inl e \<Rightarrow> Inl e
           | Inr converted \<Rightarrow>
               (case process_new_columns P converted of
                  Inl e \<Rightarrow> Inl e
                | Inr processed \<Rightarrow> Inr (drop_duplicates processed))))"
  by (simp add: preprocess_campaign_data_def and_then_def split: sum.splits)

lemma convert_expected_columns_code [code]:
  "convert_expected_columns P [] df = Inr df"
  "convert_expected_columns P ((col, t) # rest) df =
     (case get_column df col of
        None \<Rightarrow> convert_expected_columns P rest df
      | Some s \<Rightarrow>
          (case convert_column P t s of
             Inl e \<Rightarrow> Inl e
           | Inr s' \<Rightarrow> convert_expected_columns P rest (set_column col s' df)))"
  by (simp_all add: and_then_def split: sum.splits option.splits)














text \<open>
  C5. \<open>_clean_time_formatted_values\<close> does what the claim says whenever it returns
  (\<open>clean_time_formatted_values_spec\<close>), and a scrubbed column still infers as numeric
  (\<open>infer_scrubbed\<close>). It does not return for every table: the inferrer it calls on each
  column that is not natively numeric raises on a column whose coerced values include an
  infinity. On a table with the columns \<open>Ratio\<close> (\<open>inf\<close> five times and one text) and
  \<open>Clicks\<close> (five numbers and the clock text \<open>0:00:00\<close>) the scrubber raises at \<open>Ratio\<close>, the
  clock text in \<open>Clicks\<close> is never replaced, and \<open>preprocess_campaign_data\<close> raises with it: no
  table comes out in which that cell is null.
\<close>

theorem scrubber_raises_on_infinity:
  "clean_time_formatted_values sample_pandas
     (rename_columns
        \<lparr>nrows = 6,
         columns =
           [(''Ratio'', \<lparr>dtype = Object,
               cells = [Str ''inf'', Str ''inf'', Str ''inf'', Str ''inf'', Str ''inf'',
                        Str ''abc'']\<rparr>),
            (''Clicks'', \<lparr>dtype = Object,
               cells = [Str ''1'', Str ''2'', Str ''3'', Str ''4'', Str ''5'',
                        Str ''0:00:00'']\<rparr>)]\<rparr>)
   = Inl IntCastingNaNError
   \<and> preprocess_campaign_data sample_pandas
        \<lparr>nrows = 6,
         columns =
           [(''Ratio'', \<lparr>dtype = Object,
               cells = [Str ''inf'', Str ''inf'', Str ''inf'', Str ''inf'', Str ''inf'',
                        Str ''abc'']\<rparr>),
            (''Clicks'', \<lparr>dtype = Object,
               cells = [Str ''1'', Str ''2'', Str ''3'', Str ''4'', Str ''5'',
                        Str ''0:00:00'']\<rparr>)]\<rparr> 1
     = Inl IntCastingNaNError"
  by code_simp




section \<open>Properties of the warehouse operations\<close>

lemma is_alter_simp: "is_alter t (AlterTableAddColumn t col ty, r)"
  by (simp add: is_alter_def)

lemma succeeded_simp: "succeeded (q, r) = (r \<noteq> Failed)"
  by (simp add: succeeded_def)

lemma sql_log: "sql X q c = (r, c') \<Longrightarrow> snd c' = snd c @ [(q, r)]"
  by (auto simp: sql_def split: prod.splits)

lemma get_table_columns_log:
  "get_table_columns X t c = (cols, c') \<Longrightarrow>
   \<exists>r. snd c' = snd c @ [(DescribeTable t, r)]
       \<and> cols = described r"
  by (auto simp: get_table_columns_def described_def split: prod.splits response.splits
      dest: sql_log)

lemma add_columns_log:
  "add_columns P X t df cols n c = (res, c') \<Longrightarrow>
   \<exists>ext. snd c' = snd c @ ext \<and> list_all (is_alter t) ext
      \<and> (\<forall>m. res = Inr m \<longrightarrow> m = n + length (filter succeeded ext))"
proof (induction cols arbitrary: n c)
  case Nil
  then show ?case by auto
next
  case (Cons col cols)
  let ?orig = "case find (\<lambda>l. lower l = col) (labels df) of Some l \<Rightarrow> l | None \<Rightarrow> col"
  show ?case
  proof (cases "get_column df ?orig")
    case None
    with Cons.prems show ?thesis by auto
  next
    case (Some s)
    show ?thesis
    proof (cases "infer_snowflake_type P s")
      case (Inl e)
      with Some Cons.prems show ?thesis by auto
    next
      case (Inr ty)
      obtain r c1 where q: "sql X (AlterTableAddColumn t col ty) c = (r, c1)"
        by (cases "sql X (AlterTableAddColumn t col ty) c")
      from sql_log [OF q] have l1: "snd c1 = snd c @ [(AlterTableAddColumn t col ty, r)]" .
      show ?thesis
      proof (cases r)
        case Failed
        with Cons.prems Some Inr q have "add_columns P X t df cols n c1 = (res, c')"
          by simp
        from Cons.IH [OF this] obtain ext where
          e: "snd c' = snd c1 @ ext" "list_all (is_alter t) ext"
            "\<forall>m. res = Inr m \<longrightarrow> m = n + length (filter succeeded ext)"
          by blast
        show ?thesis
          apply (rule exI [of _ "(AlterTableAddColumn t col ty, r) # ext"])
          using e l1 Failed by (simp add: is_alter_simp succeeded_simp)
      next
        case (Rows rs)
        with Cons.prems Some Inr q have "add_columns P X t df cols (n + 1) c1 = (res, c')"
          by simp
        from Cons.IH [OF this] obtain ext where
          e: "snd c' = snd c1 @ ext" "list_all (is_alter t) ext"
            "\<forall>m. res = Inr m \<longrightarrow> m = n + 1 + length (filter succeeded ext)"
          by blast
        show ?thesis
          apply (rule exI [of _ "(AlterTableAddColumn t col ty, r) # ext"])
          using e l1 Rows by (simp add: is_alter_simp succeeded_simp)
      qed
    qed
  qed
qed


lemma expand_table_schema_log:
  assumes "expand_table_schema P X order t df excl c = ((ok, msg, n), c')"
  shows "\<exists>r ext. snd c' = snd c @ (DescribeTable t, r) # ext \<and> list_all (is_alter t) ext
           \<and> (r = Failed \<longrightarrow> \<not> ok \<and> n = 0 \<and> ext = [])
           \<and> (ok \<longrightarrow> n = length (filter succeeded ext))"
proof -
  obtain cols c1 where g: "get_table_columns X t c = (cols, c1)"
    by (cases "get_table_columns X t c")
  from get_table_columns_log [OF g] obtain r where
    l1: "snd c1 = snd c @ [(DescribeTable t, r)]"
    and cols: "cols = described r"
    by blast
  let ?new = "filter (\<lambda>col. col \<notin> set cols \<and> col \<notin> set (map lower excl))
                (remdups (map lower (labels df)))"
  show ?thesis
  proof (cases "cols = [] \<or> ?new = []")
    case True
    with assms g have "c' = c1" and "n = 0" and "cols = [] \<longrightarrow> \<not> ok"
      by (auto simp: expand_table_schema_def Let_def split: if_splits)
    moreover have "r = Failed \<longrightarrow> cols = []" using cols by (simp add: described_def)
    ultimately show ?thesis using l1 by auto
  next
    case False
    obtain res c2 where a: "add_columns P X t df (order ?new) 0 c1 = (res, c2)"
      by (cases "add_columns P X t df (order ?new) 0 c1")
    from add_columns_log [OF a] obtain ext where
      e: "snd c2 = snd c1 @ ext" "list_all (is_alter t) ext"
        "\<forall>m. res = Inr m \<longrightarrow> m = 0 + length (filter succeeded ext)"
      by blast
    from False cols have nf: "r \<noteq> Failed" by (auto simp: described_def)
    from assms g a False have "c' = c2" and "ok \<longrightarrow> res = Inr n"
      by (auto simp: expand_table_schema_def Let_def split: if_splits sum.splits)
    with e l1 nf show ?thesis by auto
  qed
qed


lemma upsert_frame:
  "fst (snd (upsert P X order suf tmp key df schema prefix wave now c)) = stamped df wave now"
  by (simp add: upsert_def stamped_def Let_def split: prod.splits)

lemma merge_and_drop_log:
  assumes "merge_and_drop X target t key d miss c = (result, c')"
  shows "\<exists>merged dropped.
           snd c' = snd c @ [(MergeInto target t key (filter (\<lambda>col. lower col \<noteq> key) (labels d))
                                (labels d), merged),
                             (DropTableIfExists t, dropped)]
           \<and> result = (if merged = Failed then (False, ErrorMessage SessionError)
                        else (True, Upserted (nrows d) miss))"
proof -
  let ?m = "MergeInto target t key (filter (\<lambda>col. lower col \<noteq> key) (labels d)) (labels d)"
  obtain merged c1 where m: "sql X ?m c = (merged, c1)" by (cases "sql X ?m c")
  obtain dropped c2 where q: "sql X (DropTableIfExists t) c1 = (dropped, c2)"
    by (cases "sql X (DropTableIfExists t) c1")
  from assms m q have "c' = c2"
    and "result = (if merged = Failed then (False, ErrorMessage SessionError)
                   else (True, Upserted (nrows d) miss))"
    by (auto simp: merge_and_drop_def Let_def split: response.splits)
  with sql_log [OF m] sql_log [OF q] show ?thesis by auto
qed

lemma stage_and_merge_log:
  assumes "stage_and_merge X schema_name table tmp key d miss c = (result, c')"
  shows "\<exists>r. (snd c' = snd c @ [(SelectCurrentDatabase, r)] \<and> \<not> fst result)
           \<or> (\<exists>t. snd c' = snd c @ [(SelectCurrentDatabase, r), (SaveAsTable t d, Failed)]
                  \<and> \<not> fst result)
           \<or> (\<exists>t target saved merged dropped.
                 snd c' = snd c @ [(SelectCurrentDatabase, r), (SaveAsTable t d, Rows saved),
                    (MergeInto target t key (filter (\<lambda>col. lower col \<noteq> key) (labels d))
                       (labels d), merged),
                    (DropTableIfExists t, dropped)]
                 \<and> result = (if merged = Failed then (False, ErrorMessage SessionError)
                              else (True, Upserted (nrows d) miss)))"
proof -
  obtain r c1 where q: "sql X SelectCurrentDatabase c = (r, c1)"
    by (cases "sql X SelectCurrentDatabase c")
  note l1 = sql_log [OF q]
  show ?thesis
  proof (cases "\<exists>db others. r = Rows (db # others)")
    case False
    with assms q have "c' = c1" "\<not> fst result"
      by (auto simp: stage_and_merge_def split: response.splits list.splits)
    with l1 show ?thesis by auto
  next
    case True
    then obtain db others where r: "r = Rows (db # others)" by blast
    let ?t = "db @ ''.'' @ schema_name @ ''.'' @ tmp"
    let ?target = "db @ ''.'' @ schema_name @ ''.'' @ table"
    obtain rs c2 where s: "sql X (SaveAsTable ?t d) c1 = (rs, c2)"
      by (cases "sql X (SaveAsTable ?t d) c1")
    note l2 = sql_log [OF s]
    show ?thesis
    proof (cases rs)
      case Failed
      with assms q r s have "c' = c2" "\<not> fst result"
        by (auto simp: stage_and_merge_def Let_def)
      with l1 l2 Failed show ?thesis by auto
    next
      case (Rows saved)
      with assms q r s have "merge_and_drop X ?target ?t key d miss c2 = (result, c')"
        by (simp add: stage_and_merge_def Let_def)
      from merge_and_drop_log [OF this] obtain merged dropped where
        md: "snd c' = snd c2 @ [(MergeInto ?target ?t key
                 (filter (\<lambda>col. lower col \<noteq> key) (labels d)) (labels d), merged),
               (DropTableIfExists ?t, dropped)]"
          "result = (if merged = Failed then (False, ErrorMessage SessionError)
                     else (True, Upserted (nrows d) miss))"
        by blast
      have "\<exists>t target saved merged dropped.
                 snd c' = snd c @ [(SelectCurrentDatabase, r), (SaveAsTable t d, Rows saved),
                    (MergeInto target t key (filter (\<lambda>col. lower col \<noteq> key) (labels d))
                       (labels d), merged),
                    (DropTableIfExists t, dropped)]
                 \<and> result = (if merged = Failed then (False, ErrorMessage SessionError)
                              else (True, Upserted (nrows d) miss))"
        apply (rule exI [of _ ?t], rule exI [of _ ?target], rule exI [of _ saved])
        apply (rule exI [of _ merged], rule exI [of _ dropped])
        using md l1 l2 Rows by simp
      then show ?thesis by blast
    qed
  qed
qed


lemma upsert_log:
  assumes "upsert P X order suf tmp key df schema_name prefix wave now c = (result, df', c')"
  shows "\<exists>r0 ext r1 c2.
           snd c2 = snd c @ (DescribeTable (schema_name @ ''.'' @ prefix @ suf), r0) # ext
                      @ [(DescribeTable (schema_name @ ''.'' @ prefix @ suf), r1)]
           \<and> list_all (is_alter (schema_name @ ''.'' @ prefix @ suf)) ext
           \<and> df' = stamped df wave now
           \<and> (if filter (\<lambda>col. lower col \<in> set (described r1)) (labels (stamped df wave now)) = []
              then c' = c2 \<and> result = (False, NoMatchingColumns)
              else stage_and_merge X schema_name (prefix @ suf) (prefix @ tmp @ str_int wave) key
                     (select_columns
                        (filter (\<lambda>col. lower col \<in> set (described r1)) (labels (stamped df wave now)))
                        (stamped df wave now))
                     (filter (\<lambda>col. lower col \<notin> set (described r1)) (labels (stamped df wave now)))
                     c2 = (result, c'))"
proof -
  let ?T = "schema_name @ ''.'' @ prefix @ suf"
  let ?df = "stamped df wave now"
  obtain ok msg n c1 where e: "expand_table_schema P X order ?T ?df [''upload_timestamp''] c
      = ((ok, msg, n), c1)"
    by (cases "expand_table_schema P X order ?T ?df [''upload_timestamp''] c") auto
  from expand_table_schema_log [OF e] obtain r0 ext where
    l1: "snd c1 = snd c @ (DescribeTable ?T, r0) # ext" and al: "list_all (is_alter ?T) ext"
    by blast
  obtain cols c2 where g: "get_table_columns X ?T c1 = (cols, c2)"
    by (cases "get_table_columns X ?T c1")
  from get_table_columns_log [OF g] obtain r1 where
    l2: "snd c2 = snd c1 @ [(DescribeTable ?T, r1)]" and cols: "cols = described r1"
    by blast
  have s2: "snd c2 = snd c @ (DescribeTable ?T, r0) # ext @ [(DescribeTable ?T, r1)]"
    using l1 l2 by simp
  have "df' = ?df
      \<and> (if filter (\<lambda>col. lower col \<in> set (described r1)) (labels ?df) = []
         then c' = c2 \<and> result = (False, NoMatchingColumns)
         else stage_and_merge X schema_name (prefix @ suf) (prefix @ tmp @ str_int wave) key
                (select_columns (filter (\<lambda>col. lower col \<in> set (described r1)) (labels ?df)) ?df)
                (filter (\<lambda>col. lower col \<notin> set (described r1)) (labels ?df))
                c2 = (result, c'))"
    using assms e g cols
    by (auto simp: upsert_def stamped_def Let_def split: prod.splits if_splits)
  with s2 al show ?thesis by blast
qed

lemma populate_upsert:
  assumes "populate P X order connect suf tmp key df schema_name prefix wave now conn
             = (result, df', Some c')"
  shows "\<exists>st0. upsert P X order suf tmp key df schema_name prefix wave now (st0, [])
                 = (result, df', c')"
  using assms by (auto simp: populate_def split: option.splits prod.splits)

lemma populate_instances:
  assumes "run = populate_naming_keys_table P X order connect
           \<or> run = populate_campaign_data_table P X order connect"
  shows "\<exists>suf tmp key. run = populate P X order connect suf tmp key"
  using assms unfolding populate_naming_keys_table_def populate_campaign_data_table_def
  by blast

lemma no_staging_in_expansion:
  assumes "list_all (is_alter T) ext"
  shows "(SaveAsTable t d, r) \<notin> set ((DescribeTable T, r0) # ext @ [(DescribeTable T, r1)])"
  using assms by (auto simp: list_all_iff is_alter_def)

lemma nrows_stamped: "nrows (stamped df wave now) = nrows df"
  by (simp add: stamped_def Let_def nrows_set_column)


lemma has_column_stamped:
  "has_column (stamped df wave now) ''upload_timestamp''
   \<and> has_column (stamped df wave now) ''wave_number''"
  by (simp add: stamped_def Let_def has_column_def labels_set_column)


text \<open>
  C2. In both upsert operations, whatever the warehouse answers: once the staging write
  has succeeded, the calls end with that write, the \<open>MERGE\<close> from the staged table and the
  \<open>DROP TABLE IF EXISTS\<close> of the staged table, in this order, whether the merge succeeded
  or raised; and the operation reports success exactly when the merge did not raise,
  whatever the drop answered.
\<close>

theorem temp_table_always_dropped:
  assumes "run = populate_naming_keys_table P X order connect
           \<or> run = populate_campaign_data_table P X order connect"
    and "run df schema_name prefix wave_number now conn = (result, df', Some (st, calls))"
    and "(SaveAsTable t d, Rows saved) \<in> set calls"
  shows "\<exists>before target key update_columns all_columns merged dropped.
           calls = before @ [(SaveAsTable t d, Rows saved),
                           (MergeInto target t key update_columns all_columns, merged),
                           (DropTableIfExists t, dropped)]
           \<and> fst result = (merged \<noteq> Failed)"
proof -
  from populate_instances [OF assms(1)] obtain suf tmp key where
    "run = populate P X order connect suf tmp key" by blast
  with assms(2) populate_upsert obtain st0 where
    u: "upsert P X order suf tmp key df schema_name prefix wave_number now (st0, [])
          = (result, df', (st, calls))"
    by blast
  let ?T = "schema_name @ ''.'' @ prefix @ suf"
  let ?df = "stamped df wave_number now"
  from upsert_log [OF u] obtain r0 ext r1 c2 where
    l: "snd c2 = (DescribeTable ?T, r0) # ext @ [(DescribeTable ?T, r1)]"
    and al: "list_all (is_alter ?T) ext"
    and rest: "if filter (\<lambda>col. lower col \<in> set (described r1)) (labels ?df) = []
       then (st, calls) = c2 \<and> result = (False, NoMatchingColumns)
       else stage_and_merge X schema_name (prefix @ suf) (prefix @ tmp @ str_int wave_number) key
              (select_columns (filter (\<lambda>col. lower col \<in> set (described r1)) (labels ?df)) ?df)
              (filter (\<lambda>col. lower col \<notin> set (described r1)) (labels ?df))
              c2 = (result, (st, calls))"
    by auto
  note none = no_staging_in_expansion [OF al, of t d "Rows saved" r0 r1]
  let ?keep = "filter (\<lambda>col. lower col \<in> set (described r1)) (labels ?df)"
  let ?d = "select_columns ?keep ?df"
  show ?thesis
  proof (cases "?keep = []")
    case True
    with rest have "calls = snd c2" by auto
    with l none assms(3) show ?thesis by simp
  next
    case False
    with rest have "stage_and_merge X schema_name (prefix @ suf)
        (prefix @ tmp @ str_int wave_number) key ?d
        (filter (\<lambda>col. lower col \<notin> set (described r1)) (labels ?df)) c2 = (result, (st, calls))"
      by simp
    from stage_and_merge_log [OF this] obtain r where
      cases3: "(calls = snd c2 @ [(SelectCurrentDatabase, r)] \<and> \<not> fst result)
           \<or> (\<exists>t'. calls = snd c2 @ [(SelectCurrentDatabase, r), (SaveAsTable t' ?d, Failed)]
                  \<and> \<not> fst result)
           \<or> (\<exists>t' target saved' merged dropped.
                 calls = snd c2 @ [(SelectCurrentDatabase, r), (SaveAsTable t' ?d, Rows saved'),
                    (MergeInto target t' key (filter (\<lambda>col. lower col \<noteq> key) (labels ?d))
                       (labels ?d), merged),
                    (DropTableIfExists t', dropped)]
                 \<and> result = (if merged = Failed then (False, ErrorMessage SessionError)
                              else (True, Upserted (nrows ?d)
                                (filter (\<lambda>col. lower col \<notin> set (described r1)) (labels ?df)))))"
      by auto
    from cases3 show ?thesis
    proof (elim disjE exE conjE)
      assume "calls = snd c2 @ [(SelectCurrentDatabase, r)]"
      with l none assms(3) show ?thesis by auto
    next
      fix t'
      assume "calls = snd c2 @ [(SelectCurrentDatabase, r), (SaveAsTable t' ?d, Failed)]"
      with l none assms(3) show ?thesis by auto
    next
      fix t' target saved' merged dropped
      assume lg: "calls = snd c2 @ [(SelectCurrentDatabase, r), (SaveAsTable t' ?d, Rows saved'),
                    (MergeInto target t' key (filter (\<lambda>col. lower col \<noteq> key) (labels ?d))
                       (labels ?d), merged),
                    (DropTableIfExists t', dropped)]"
        and res: "result = (if merged = Failed then (False, ErrorMessage SessionError)
                              else (True, Upserted (nrows ?d)
                                (filter (\<lambda>col. lower col \<notin> set (described r1)) (labels ?df))))"
      from lg l none assms(3) have eq: "t = t'" "d = ?d" "saved = saved'" by auto
      have "calls = (snd c2 @ [(SelectCurrentDatabase, r)]) @ [(SaveAsTable t d, Rows saved),
                    (MergeInto target t key (filter (\<lambda>col. lower col \<noteq> key) (labels ?d))
                       (labels ?d), merged),
                    (DropTableIfExists t, dropped)]"
        using lg eq by simp
      moreover have "fst result = (merged \<noteq> Failed)" using res by simp
      ultimately show ?thesis by blast
    qed
  qed
qed

text \<open>
  A campaign upload without the key column: the merge raises, the staged table is dropped
  all the same, and the failure is reported.
\<close>

theorem temp_table_always_dropped_witness:
  "(populate_campaign_data_table sample_pandas sample_session id None
        = populate_naming_keys_table sample_pandas sample_session id None
      \<or> populate_campaign_data_table sample_pandas sample_session id None
        = populate_campaign_data_table sample_pandas sample_session id None)
   \<and> populate_campaign_data_table sample_pandas sample_session id None
       \<lparr>nrows = 1, columns = [(''impressions'', \<lparr>dtype = Int64, cells = [Num (Fin 7)]\<rparr>)]\<rparr>
       ''CLIENT_X_2024'' ''META'' 1 0 (Some [''AD_NAME'', ''IMPRESSIONS''])
     = ((False, ErrorMessage SessionError),
        \<lparr>nrows = 1,
         columns = [(''impressions'', \<lparr>dtype = Int64, cells = [Num (Fin 7)]\<rparr>),
                    (''wave_number'', \<lparr>dtype = Int64, cells = [Num (Fin 1)]\<rparr>),
                    (''upload_timestamp'', \<lparr>dtype = Datetime64, cells = [Stamp 0]\<rparr>)]\<rparr>,
        Some ([''AD_NAME'', ''IMPRESSIONS'', ''wave_number''],
          [(DescribeTable ''CLIENT_X_2024.META_PROCESSED_CAMPAIGN_DATA'',
              Rows [''AD_NAME'', ''IMPRESSIONS'']),
           (AlterTableAddColumn ''CLIENT_X_2024.META_PROCESSED_CAMPAIGN_DATA'' ''wave_number''
              INTEGER, Rows []),
           (DescribeTable ''CLIENT_X_2024.META_PROCESSED_CAMPAIGN_DATA'',
              Rows [''AD_NAME'', ''IMPRESSIONS'', ''wave_number'']),
           (SelectCurrentDatabase, Rows [''DB'']),
           (SaveAsTable ''DB.CLIENT_X_2024.META_CAMPAIGN_DATA_TEMP_1''
              \<lparr>nrows = 1,
               columns = [(''impressions'', \<lparr>dtype = Int64, cells = [Num (Fin 7)]\<rparr>),
                          (''wave_number'', \<lparr>dtype = Int64, cells = [Num (Fin 1)]\<rparr>)]\<rparr>,
              Rows []),
           (MergeInto ''DB.CLIENT_X_2024.META_PROCESSED_CAMPAIGN_DATA''
              ''DB.CLIENT_X_2024.META_CAMPAIGN_DATA_TEMP_1'' ''ad_name''
              [''impressions'', ''wave_number''] [''impressions'', ''wave_number''], Failed),
           (DropTableIfExists ''DB.CLIENT_X_2024.META_CAMPAIGN_DATA_TEMP_1'', Rows [])]))
   \<and> (\<exists>before target key update_columns all_columns merged dropped.
         [(DescribeTable ''CLIENT_X_2024.META_PROCESSED_CAMPAIGN_DATA'',
              Rows [''AD_NAME'', ''IMPRESSIONS'']),
           (AlterTableAddColumn ''CLIENT_X_2024.META_PROCESSED_CAMPAIGN_DATA'' ''wave_number''
              INTEGER, Rows []),
           (DescribeTable ''CLIENT_X_2024.META_PROCESSED_CAMPAIGN_DATA'',
              Rows [''AD_NAME'', ''IMPRESSIONS'', ''wave_number'']),
           (SelectCurrentDatabase, Rows [''DB'']),
           (SaveAsTable ''DB.CLIENT_X_2024.META_CAMPAIGN_DATA_TEMP_1''
              \<lparr>nrows = 1,
               columns = [(''impressions'', \<lparr>dtype = Int64, cells = [Num (Fin 7)]\<rparr>),
                          (''wave_number'', \<lparr>dtype = Int64, cells = [Num (Fin 1)]\<rparr>)]\<rparr>,
              Rows []),
           (MergeInto ''DB.CLIENT_X_2024.META_PROCESSED_CAMPAIGN_DATA''
              ''DB.CLIENT_X_2024.META_CAMPAIGN_DATA_TEMP_1'' ''ad_name''
              [''impressions'', ''wave_number''] [''impressions'', ''wave_number''], Failed),
           (DropTableIfExists ''DB.CLIENT_X_2024.META_CAMPAIGN_DATA_TEMP_1'', Rows [])]
         = before @ [(SaveAsTable ''DB.CLIENT_X_2024.META_CAMPAIGN_DATA_TEMP_1''
              \<lparr>nrows = 1,
               columns = [(''impressions'', \<lparr>dtype = Int64, cells = [Num (Fin 7)]\<rparr>),
                          (''wave_number'', \<lparr>dtype = Int64, cells = [Num (Fin 1)]\<rparr>)]\<rparr>,
              Rows []),
            (MergeInto target ''DB.CLIENT_X_2024.META_CAMPAIGN_DATA_TEMP_1'' key update_columns
               all_columns, merged),
            (DropTableIfExists ''DB.CLIENT_X_2024.META_CAMPAIGN_DATA_TEMP_1'', dropped)]
         \<and> fst (False, ErrorMessage SessionError) = (merged \<noteq> Failed))"
proof -
  let ?run = "populate_campaign_data_table sample_pandas sample_session id None"
  let ?df = "\<lparr>nrows = 1, columns = [(''impressions'', \<lparr>dtype = Int64, cells = [Num (Fin 7)]\<rparr>)]\<rparr>"
  let ?d = "\<lparr>nrows = 1,
               columns = [(''impressions'', \<lparr>dtype = Int64, cells = [Num (Fin 7)]\<rparr>),
                          (''wave_number'', \<lparr>dtype = Int64, cells = [Num (Fin 1)]\<rparr>)]\<rparr>"
  let ?df' = "\<lparr>nrows = 1,
         columns = [(''impressions'', \<lparr>dtype = Int64, cells = [Num (Fin 7)]\<rparr>),
                    (''wave_number'', \<lparr>dtype = Int64, cells = [Num (Fin 1)]\<rparr>),
                    (''upload_timestamp'', \<lparr>dtype = Datetime64, cells = [Stamp 0]\<rparr>)]\<rparr>"
  let ?calls = "[(DescribeTable ''CLIENT_X_2024.META_PROCESSED_CAMPAIGN_DATA'',
              Rows [''AD_NAME'', ''IMPRESSIONS'']),
           (AlterTableAddColumn ''CLIENT_X_2024.META_PROCESSED_CAMPAIGN_DATA'' ''wave_number''
              INTEGER, Rows []),
           (DescribeTable ''CLIENT_X_2024.META_PROCESSED_CAMPAIGN_DATA'',
              Rows [''AD_NAME'', ''IMPRESSIONS'', ''wave_number'']),
           (SelectCurrentDatabase, Rows [''DB'']),
           (SaveAsTable ''DB.CLIENT_X_2024.META_CAMPAIGN_DATA_TEMP_1'' ?d, Rows []),
           (MergeInto ''DB.CLIENT_X_2024.META_PROCESSED_CAMPAIGN_DATA''
              ''DB.CLIENT_X_2024.META_CAMPAIGN_DATA_TEMP_1'' ''ad_name''
              [''impressions'', ''wave_number''] [''impressions'', ''wave_number''], Failed),
           (DropTableIfExists ''DB.CLIENT_X_2024.META_CAMPAIGN_DATA_TEMP_1'', Rows [])]"
  have h1: "?run = populate_naming_keys_table sample_pandas sample_session id None
            \<or> ?run = ?run" by simp
  have h2: "?run ?df ''CLIENT_X_2024'' ''META'' 1 0 (Some [''AD_NAME'', ''IMPRESSIONS''])
     = ((False, ErrorMessage SessionError), ?df',
        Some ([''AD_NAME'', ''IMPRESSIONS'', ''wave_number''], ?calls))"
    by code_simp
  have h3: "(SaveAsTable ''DB.CLIENT_X_2024.META_CAMPAIGN_DATA_TEMP_1'' ?d, Rows []) \<in> set ?calls"
    by simp
  from temp_table_always_dropped [OF h1 h2 h3] h1 h2
  show ?thesis by simp
qed

text \<open>
  C8. The expander issues a description and column additions only, returns failure with
  count 0 when the description fails, goes on after a failed addition, and, when it returns
  success, counts the additions that succeeded (\<open>expand_table_schema_log\<close>). The count is
  lost when the type inference of a later column raises: the inference is outside the inner
  \<open>try\<close>, so the outer handler returns count 0 after columns have been added. On a frame
  with the new columns \<open>clicks\<close>, \<open>ratio\<close> and \<open>notes\<close>, taken in this order, where \<open>ratio\<close>
  holds \<open>inf\<close> five times and one text, the column \<open>clicks\<close> is added, the inference of
  \<open>ratio\<close> raises, \<open>notes\<close> is never tried, and the result is failure with count 0.
\<close>

theorem expansion_loses_count_on_inference_error:
  "expand_table_schema sample_pandas sample_session id ''CLIENT_X_2024.META_NAMING_KEYS''
     \<lparr>nrows = 6,
      columns =
        [(''ad_set_name'', \<lparr>dtype = Object,
            cells = [Str ''a'', Str ''b'', Str ''c'', Str ''d'', Str ''e'', Str ''f'']\<rparr>),
         (''clicks'', \<lparr>dtype = Int64,
            cells = [Num (Fin 1), Num (Fin 2), Num (Fin 3), Num (Fin 4), Num (Fin 5),
                     Num (Fin 6)]\<rparr>),
         (''ratio'', \<lparr>dtype = Object,
            cells = [Str ''inf'', Str ''inf'', Str ''inf'', Str ''inf'', Str ''inf'',
                     Str ''abc'']\<rparr>),
         (''notes'', \<lparr>dtype = Object,
            cells = [Str ''p'', Str ''q'', Str ''r'', Str ''s'', Str ''t'', Str ''u'']\<rparr>)]\<rparr>
     [''upload_timestamp''] ([''AD_SET_NAME''], [])
   = ((False, SchemaExpansionError IntCastingNaNError, 0),
      ([''AD_SET_NAME'', ''clicks''],
       [(DescribeTable ''CLIENT_X_2024.META_NAMING_KEYS'', Rows [''AD_SET_NAME'']),
        (AlterTableAddColumn ''CLIENT_X_2024.META_NAMING_KEYS'' ''clicks'' INTEGER, Rows [])]))"
  by code_simp



text \<open>
  C10 as stated fails for a call without a connection: the operation returns before the
  two assignments, and the caller's frame is left as it was, without \<open>upload_timestamp\<close>.
\<close>

theorem populate_without_connection_leaves_frame:
  "populate_campaign_data_table sample_pandas sample_session id None
       \<lparr>nrows = 1, columns = [(''ad_name'', \<lparr>dtype = Object, cells = [Str ''A'']\<rparr>)]\<rparr>
       ''CLIENT_X_2024'' ''META'' 1 0 None
   = ((False, ConnectionFailed),
      \<lparr>nrows = 1, columns = [(''ad_name'', \<lparr>dtype = Object, cells = [Str ''A'']\<rparr>)]\<rparr>,
      None)
   \<and> \<not> has_column (fst (snd (populate_campaign_data_table sample_pandas sample_session id None
       \<lparr>nrows = 1, columns = [(''ad_name'', \<lparr>dtype = Object, cells = [Str ''A'']\<rparr>)]\<rparr>
       ''CLIENT_X_2024'' ''META'' 1 0 None))) ''upload_timestamp''"
  by code_simp

text \<open>
  C10, as amended. For every call that has a connection or obtains one, the caller's frame
  after the call is the frame with the wave number (when it was absent) and the upload
  timestamp assigned, whatever the result of the call. The frame then has both columns.
\<close>

theorem populate_stamps_callers_frame:
  assumes "conn \<noteq> None \<or> connect \<noteq> None"
  shows "fst (snd (populate_naming_keys_table P X order connect df schema_name prefix
                     wave_number now conn)) = stamped df wave_number now
       \<and> fst (snd (populate_campaign_data_table P X order connect df schema_name prefix
                     wave_number now conn)) = stamped df wave_number now
       \<and> has_column (stamped df wave_number now) ''upload_timestamp''
       \<and> has_column (stamped df wave_number now) ''wave_number''"
proof -
  have "fst (snd (populate P X order connect suf tmp key df schema_name prefix
                    wave_number now conn)) = stamped df wave_number now" for suf tmp key
  proof -
    from assms obtain st0 where
      c: "(case conn of None \<Rightarrow> connect | Some st \<Rightarrow> Some st) = Some st0"
      by (cases conn) auto
    obtain result df' c' where
      u: "upsert P X order suf tmp key df schema_name prefix wave_number now (st0, [])
            = (result, df', c')"
      by (cases "upsert P X order suf tmp key df schema_name prefix wave_number now (st0, [])")
    from upsert_frame [of P X order suf tmp key df schema_name prefix wave_number now "(st0, [])"] u
    have "df' = stamped df wave_number now" by simp
    with c u show ?thesis by (simp add: populate_def)
  qed
  then show ?thesis
    using has_column_stamped [of df wave_number now]
    by (simp add: populate_naming_keys_table_def populate_campaign_data_table_def)
qed

text \<open>
  A call on a table that cannot be described: the operation fails and the frame has gained
  both columns.
\<close>

theorem populate_stamps_callers_frame_witness:
  "fst (populate_campaign_data_table sample_pandas sample_session id None
       \<lparr>nrows = 1, columns = [(''ad_name'', \<lparr>dtype = Object, cells = [Str ''A'']\<rparr>)]\<rparr>
       ''CLIENT_X_2024'' ''META'' 1 0 (Some ([] :: string list))) = (False, NoMatchingColumns)
   \<and> fst (snd (populate_campaign_data_table sample_pandas sample_session id None
       \<lparr>nrows = 1, columns = [(''ad_name'', \<lparr>dtype = Object, cells = [Str ''A'']\<rparr>)]\<rparr>
       ''CLIENT_X_2024'' ''META'' 1 0 (Some ([] :: string list))))
     = \<lparr>nrows = 1,
        columns = [(''ad_name'', \<lparr>dtype = Object, cells = [Str ''A'']\<rparr>),
                   (''wave_number'', \<lparr>dtype = Int64, cells = [Num (Fin 1)]\<rparr>),
                   (''upload_timestamp'', \<lparr>dtype = Datetime64, cells = [Stamp 0]\<rparr>)]\<rparr>"
proof -
  let ?df = "\<lparr>nrows = 1, columns = [(''ad_name'', \<lparr>dtype = Object, cells = [Str ''A'']\<rparr>)]\<rparr>"
  have h: "Some ([] :: string list) \<noteq> None \<or> (None :: string list option) \<noteq> None" by simp
  have s: "stamped ?df 1 0 = \<lparr>nrows = 1,
        columns = [(''ad_name'', \<lparr>dtype = Object, cells = [Str ''A'']\<rparr>),
                   (''wave_number'', \<lparr>dtype = Int64, cells = [Num (Fin 1)]\<rparr>),
                   (''upload_timestamp'', \<lparr>dtype = Datetime64, cells = [Stamp 0]\<rparr>)]\<rparr>"
    by code_simp
  have r: "fst (populate_campaign_data_table sample_pandas sample_session id None ?df
       ''CLIENT_X_2024'' ''META'' 1 0 (Some ([] :: string list))) = (False, NoMatchingColumns)"
    by code_simp
  from populate_stamps_callers_frame [OF h, of sample_pandas sample_session id ?df
      "''CLIENT_X_2024''" "''META''" 1 0] s r
  show ?thesis by simp
qed


end
